theory Spec2Isabelle
  imports Complex_Main
begin

section \<open>Data model\<close>

text \<open>
  The backend keeps all of its state in a relational database reached through an ORM.
  The tables are given with the columns that the route handlers read or write.
  Identifiers are strings, counters are integers (an \<open>increment\<close> or
  \<open>decrement\<close> is an addition), money, ratings and percentages are rationals (the
  JavaScript numbers, without rounding), enum columns are the strings the handlers
  compare them with, and a timestamp is the clock reading \<open>now\<close> of the request.
  Field names carry a table prefix, since record fields share one name space.
  Real-time notifications, which the handlers emit beside their writes, are not part of
  the database and are left out.
\<close>

record course =
  c_id :: string
  c_isPublished :: bool
  c_status :: string
  c_price :: rat
  c_currency :: string
  c_tutorId :: string
  c_totalEnrollments :: int
  c_totalRevenue :: rat
  c_averageRating :: rat
  c_totalReviews :: int

record course_section =
  s_id :: string
  s_courseId :: string
  s_isActive :: bool

record lesson =
  l_id :: string
  l_sectionId :: string
  l_isActive :: bool

record tutor =
  t_id :: string
  t_userId :: string
  t_totalStudents :: int
  t_totalEarnings :: rat
  t_totalReviews :: int

record student =
  st_userId :: string
  st_totalCoursesEnrolled :: int
  st_totalCoursesCompleted :: int

record enrollment =
  e_id :: string
  e_studentId :: string
  e_courseId :: string
  e_status :: string
  e_progress :: rat
  e_enrolledAt :: nat
  e_lastAccessedAt :: "nat option"
  e_completedAt :: "nat option"

record progress =
  p_studentId :: string
  p_lessonId :: string
  p_enrollmentId :: string
  p_timeSpent :: int
  p_lastPosition :: int
  p_isCompleted :: bool
  p_completedAt :: "nat option"

record certificate =
  ct_studentId :: string
  ct_courseId :: string
  ct_enrollmentId :: string
  ct_certificateNumber :: string

record payment =
  pay_stripePaymentId :: string
  pay_status :: string
  pay_paidAt :: "nat option"
  pay_failedAt :: "nat option"

record review =
  r_studentId :: string
  r_courseId :: string
  r_rating :: int
  r_title :: "string option"
  r_content :: "string option"
  r_isPublished :: bool
  r_isVerified :: bool

record user =
  u_id :: string
  u_email :: string
  u_username :: string
  u_firstName :: string
  u_lastName :: string
  u_password :: string
  u_isActive :: bool

record userRole =
  ur_userId :: string
  ur_roleId :: string

record role =
  ro_id :: string
  ro_name :: string

record rolePermission =
  rp_roleId :: string
  rp_permissionId :: string

record permission =
  pm_id :: string
  pm_name :: string

record userPermission =
  up_userId :: string
  up_permissionId :: string

record admin =
  a_userId :: string

record db =
  courses :: "course list"
  sections :: "course_section list"
  lessons :: "lesson list"
  tutors :: "tutor list"
  students :: "student list"
  enrollments :: "enrollment list"
  progresses :: "progress list"
  certificates :: "certificate list"
  payments :: "payment list"
  reviews :: "review list"
  users :: "user list"
  userRoles :: "userRole list"
  roles :: "role list"
  rolePermissions :: "rolePermission list"
  permissions :: "permission list"
  userPermissions :: "userPermission list"
  admins :: "admin list"

section \<open>The ORM calls\<close>

text \<open>
  Every write statement a handler issues has a label. A request runs in an environment
  that says which statements the database rejects during it (a lost connection, a
  timeout, a violated constraint of a column the model does not carry), what the clock
  reads, and which fresh identifier and certificate number the request draws. The
  certificate number is the value of the handler's template literal over
  \<open>Date.now()\<close> and \<open>Math.random()\<close>.
\<close>

datatype stmt =
  EnrollmentCreate | EnrollmentUpdate | EnrollmentDelete
  | CourseUpdate | TutorUpdate | StudentUpdate
  | ProgressUpsert | ProgressDeleteMany | CertificateCreate
  | PaymentUpdate | ReviewCreate | ReviewUpdate | ReviewDelete

datatype exn =
  Rejected stmt
  | RecordNotFound stmt
  | UniqueConstraint stmt
  | ReferenceError string
  | ValidationError string
  | TypeError string

record env =
  rejects :: "stmt \<Rightarrow> bool"
  now :: nat
  newId :: string
  certificateNumber :: string

text \<open>
  An ORM call is a function of the database that either raises, leaving the database as
  it is, or returns a value and the next database.
\<close>

type_synonym 'a prisma = "db \<Rightarrow> (exn + 'a) \<times> db"

definition ret :: "'a \<Rightarrow> 'a prisma" where
  "ret a = (\<lambda>d. (Inr a, d))"

definition throw :: "exn \<Rightarrow> 'a prisma" where
  "throw e = (\<lambda>d. (Inl e, d))"

definition await :: "'a prisma \<Rightarrow> ('a \<Rightarrow> 'b prisma) \<Rightarrow> 'b prisma" where
  "await m f = (\<lambda>d. case m d of (Inl e, d') \<Rightarrow> (Inl e, d') | (Inr a, d') \<Rightarrow> f a d')"

definition query :: "(db \<Rightarrow> 'a) \<Rightarrow> 'a prisma" where
  "query f = (\<lambda>d. (Inr (f d), d))"

definition statement :: "env \<Rightarrow> stmt \<Rightarrow> (db \<Rightarrow> exn + 'a \<times> db) \<Rightarrow> 'a prisma" where
  "statement en s w = (\<lambda>d.
     if rejects en s then (Inl (Rejected s), d)
     else (case w d of Inl e \<Rightarrow> (Inl e, d) | Inr (a, d') \<Rightarrow> (Inr a, d')))"

text \<open>\<open>$transaction\<close>: when the body raises, every write of the body is rolled back.\<close>

definition transaction :: "'a prisma \<Rightarrow> 'a prisma" where
  "transaction m = (\<lambda>d. case m d of (Inl e, _) \<Rightarrow> (Inl e, d) | (Inr a, d') \<Rightarrow> (Inr a, d'))"

text \<open>
  \<open>update\<close> and \<open>delete\<close> with a unique \<open>where\<close> act on the one matching row and raise
  when there is none.
\<close>

fun update_unique :: "('a \<Rightarrow> bool) \<Rightarrow> ('a \<Rightarrow> 'a) \<Rightarrow> 'a list \<Rightarrow> ('a \<times> 'a list) option" where
  "update_unique P f [] = None"
| "update_unique P f (x # xs) =
     (if P x then Some (f x, f x # xs)
      else map_option (\<lambda>(y, ys). (y, x # ys)) (update_unique P f xs))"

fun delete_unique :: "('a \<Rightarrow> bool) \<Rightarrow> 'a list \<Rightarrow> ('a \<times> 'a list) option" where
  "delete_unique P [] = None"
| "delete_unique P (x # xs) =
     (if P x then Some (x, xs)
      else map_option (\<lambda>(y, ys). (y, x # ys)) (delete_unique P xs))"

section \<open>Responses\<close>

text \<open>JSON values; an object is the list of its properties in insertion order.\<close>

datatype json =
  JNull
  | JBool bool
  | JNum rat
  | JStr string
  | JArr "json list"
  | JObj "(string \<times> json) list"

datatype payload =
  NoData
  | UserData "(string \<times> json) list"
  | EnrollmentData enrollment
  | EnrollmentList "enrollment list" nat
  | EnrollmentDetail enrollment "progress list" "certificate option"
  | PaymentRequired string rat string
  | ProgressData progress rat enrollment
  | ReviewData review

datatype outcome =
  Response nat string payload
  | NextError exn

text \<open>
  Each handler body is wrapped in \<open>try { ... } catch (error) { next(error) }\<close>: an
  exception ends the request with the error handed on, and the database stays as the
  statements before the exception left it.
\<close>

definition try_next :: "outcome prisma \<Rightarrow> db \<Rightarrow> outcome \<times> db" where
  "try_next m = (\<lambda>d. case m d of (Inl e, d') \<Rightarrow> (NextError e, d') | (Inr r, d') \<Rightarrow> (r, d'))"

section \<open>Table statements shared by the routes\<close>

definition enrollment_findUnique :: "string \<Rightarrow> string \<Rightarrow> db \<Rightarrow> enrollment option" where
  "enrollment_findUnique studentId courseId d =
     find (\<lambda>e. e_studentId e = studentId \<and> e_courseId e = courseId) (enrollments d)"

definition published_course :: "string \<Rightarrow> db \<Rightarrow> course option" where
  "published_course courseId d =
     find (\<lambda>c. c_id c = courseId \<and> c_isPublished c \<and> c_status c = ''PUBLISHED'') (courses d)"

definition course_findUnique :: "string \<Rightarrow> db \<Rightarrow> course option" where
  "course_findUnique courseId d = find (\<lambda>c. c_id c = courseId) (courses d)"

definition tutor_findUnique :: "string \<Rightarrow> db \<Rightarrow> tutor option" where
  "tutor_findUnique tutorId d = find (\<lambda>t. t_id t = tutorId) (tutors d)"

definition student_findUnique :: "string \<Rightarrow> db \<Rightarrow> student option" where
  "student_findUnique userId d = find (\<lambda>s. st_userId s = userId) (students d)"

definition enrollment_create :: "env \<Rightarrow> string \<Rightarrow> string \<Rightarrow> enrollment prisma" where
  "enrollment_create en studentId courseId = statement en EnrollmentCreate (\<lambda>d.
     case enrollment_findUnique studentId courseId d of
       Some _ \<Rightarrow> Inl (UniqueConstraint EnrollmentCreate)
     | None \<Rightarrow>
         (let e = \<lparr>e_id = newId en, e_studentId = studentId, e_courseId = courseId,
                    e_status = ''ACTIVE'', e_progress = 0, e_enrolledAt = now en,
                    e_lastAccessedAt = None, e_completedAt = None\<rparr>
          in Inr (e, d\<lparr>enrollments := enrollments d @ [e]\<rparr>)))"

definition course_update :: "env \<Rightarrow> string \<Rightarrow> (course \<Rightarrow> course) \<Rightarrow> course prisma" where
  "course_update en courseId f = statement en CourseUpdate (\<lambda>d.
     case update_unique (\<lambda>c. c_id c = courseId) f (courses d) of
       None \<Rightarrow> Inl (RecordNotFound CourseUpdate)
     | Some (c, cs) \<Rightarrow> Inr (c, d\<lparr>courses := cs\<rparr>))"

definition tutor_update :: "env \<Rightarrow> string \<Rightarrow> (tutor \<Rightarrow> tutor) \<Rightarrow> tutor prisma" where
  "tutor_update en tutorId f = statement en TutorUpdate (\<lambda>d.
     case update_unique (\<lambda>t. t_id t = tutorId) f (tutors d) of
       None \<Rightarrow> Inl (RecordNotFound TutorUpdate)
     | Some (t, ts) \<Rightarrow> Inr (t, d\<lparr>tutors := ts\<rparr>))"

definition student_update :: "env \<Rightarrow> string \<Rightarrow> (student \<Rightarrow> student) \<Rightarrow> student prisma" where
  "student_update en userId f = statement en StudentUpdate (\<lambda>d.
     case update_unique (\<lambda>s. st_userId s = userId) f (students d) of
       None \<Rightarrow> Inl (RecordNotFound StudentUpdate)
     | Some (s, ss) \<Rightarrow> Inr (s, d\<lparr>students := ss\<rparr>))"

section \<open>Enrollment routes\<close>

subsection \<open>POST /api/enrollments/:courseId\<close>

definition enroll :: "env \<Rightarrow> string \<Rightarrow> string \<Rightarrow> db \<Rightarrow> outcome \<times> db" where
  "enroll en studentId courseId = try_next (
     await (query (published_course courseId)) (\<lambda>course.
     case course of
       None \<Rightarrow> ret (Response 404 ''Course not found or not available for enrollment'' NoData)
     | Some course \<Rightarrow>
     await (query (enrollment_findUnique studentId courseId)) (\<lambda>existingEnrollment.
     case existingEnrollment of
       Some _ \<Rightarrow> ret (Response 400 ''Already enrolled in this course'' NoData)
     | None \<Rightarrow>
     if c_price course = 0 then
       await (enrollment_create en studentId courseId) (\<lambda>enrollment.
       await (course_update en courseId
                (\<lambda>c. c\<lparr>c_totalEnrollments := c_totalEnrollments c + 1\<rparr>)) (\<lambda>_.
       await (tutor_update en (c_tutorId course)
                (\<lambda>t. t\<lparr>t_totalStudents := t_totalStudents t + 1\<rparr>)) (\<lambda>_.
       await (student_update en studentId
                (\<lambda>s. s\<lparr>st_totalCoursesEnrolled := st_totalCoursesEnrolled s + 1\<rparr>)) (\<lambda>_.
       ret (Response 201 ''Successfully enrolled in course'' (EnrollmentData enrollment))))))
     else
       ret (Response 402 ''Payment required for this course''
              (PaymentRequired courseId (c_price course) (c_currency course))))))"

subsection \<open>DELETE /api/enrollments/:courseId\<close>

definition progress_deleteMany :: "env \<Rightarrow> string \<Rightarrow> unit prisma" where
  "progress_deleteMany en enrollmentId = statement en ProgressDeleteMany (\<lambda>d.
     Inr ((), d\<lparr>progresses := filter (\<lambda>p. p_enrollmentId p \<noteq> enrollmentId) (progresses d)\<rparr>))"

definition enrollment_delete :: "env \<Rightarrow> string \<Rightarrow> enrollment prisma" where
  "enrollment_delete en enrollmentId = statement en EnrollmentDelete (\<lambda>d.
     case delete_unique (\<lambda>e. e_id e = enrollmentId) (enrollments d) of
       None \<Rightarrow> Inl (RecordNotFound EnrollmentDelete)
     | Some (e, es) \<Rightarrow> Inr (e, d\<lparr>enrollments := es\<rparr>))"

definition unenroll_writes :: "env \<Rightarrow> string \<Rightarrow> string \<Rightarrow> enrollment \<Rightarrow> unit prisma" where
  "unenroll_writes en studentId courseId enrollment =
     await (progress_deleteMany en (e_id enrollment)) (\<lambda>_.
     await (enrollment_delete en (e_id enrollment)) (\<lambda>_.
     await (course_update en courseId
              (\<lambda>c. c\<lparr>c_totalEnrollments := c_totalEnrollments c - 1\<rparr>)) (\<lambda>_.
     await (student_update en studentId
              (\<lambda>s. s\<lparr>st_totalCoursesEnrolled := st_totalCoursesEnrolled s - 1\<rparr>)) (\<lambda>_.
     ret ()))))"

definition unenroll :: "env \<Rightarrow> string \<Rightarrow> string \<Rightarrow> db \<Rightarrow> outcome \<times> db" where
  "unenroll en studentId courseId = try_next (
     await (query (enrollment_findUnique studentId courseId)) (\<lambda>enrollment.
     case enrollment of
       None \<Rightarrow> ret (Response 404 ''Enrollment not found'' NoData)
     | Some enrollment \<Rightarrow>
     if e_status enrollment = ''COMPLETED'' then
       ret (Response 400 ''Cannot unenroll from completed course'' NoData)
     else
       await (transaction (unenroll_writes en studentId courseId enrollment)) (\<lambda>_.
       ret (Response 200 ''Successfully unenrolled from course'' NoData))))"

subsection \<open>PUT /api/enrollments/:courseId/progress/:lessonId\<close>

text \<open>
  The request body is not validated on this route. Its three fields are read as the
  column types the ORM accepts, \<open>None\<close> standing for an absent field; \<open>x || y\<close> takes
  \<open>y\<close> when \<open>x\<close> is absent, zero or false.
\<close>

record progress_body =
  timeSpent :: "int option"
  lastPosition :: "int option"
  isCompleted :: "bool option"

definition truthy_num :: "int option \<Rightarrow> bool" where
  "truthy_num x = (case x of None \<Rightarrow> False | Some n \<Rightarrow> n \<noteq> 0)"

definition truthy_bool :: "bool option \<Rightarrow> bool" where
  "truthy_bool x = (case x of None \<Rightarrow> False | Some b \<Rightarrow> b)"

definition eval :: "exn + 'a \<Rightarrow> 'a prisma" where
  "eval x = (\<lambda>d. case x of Inl e \<Rightarrow> (Inl e, d) | Inr a \<Rightarrow> (Inr a, d))"

text \<open>The lesson with the given id whose section belongs to the course.\<close>

definition lesson_of_course :: "string \<Rightarrow> db \<Rightarrow> lesson \<Rightarrow> bool" where
  "lesson_of_course courseId d l =
     (case find (\<lambda>s. s_id s = l_sectionId l) (sections d) of
        None \<Rightarrow> False | Some s \<Rightarrow> s_courseId s = courseId)"

definition lesson_findFirst :: "string \<Rightarrow> string \<Rightarrow> db \<Rightarrow> lesson option" where
  "lesson_findFirst lessonId courseId d =
     find (\<lambda>l. l_id l = lessonId \<and> lesson_of_course courseId d l) (lessons d)"

text \<open>
  The \<open>update\<close> object of the upsert. A field set to \<open>undefined\<close> is left as it is. The
  last property is spread from \<open>isCompleted && !progress?.completedAt && {...}\<close>, where
  \<open>progress\<close> is the constant that the upsert's own result initialises: when
  \<open>isCompleted\<close> is truthy the right operand is evaluated and reading \<open>progress\<close> raises
  a ReferenceError; when it is not, nothing is spread.
\<close>

definition progress_update_data :: "progress_body \<Rightarrow> exn + (progress \<Rightarrow> progress)" where
  "progress_update_data body =
     (if truthy_bool (isCompleted body) then Inl (ReferenceError ''progress'')
      else Inr (\<lambda>p. p\<lparr>
        p_timeSpent := (if truthy_num (timeSpent body) then the (timeSpent body) else p_timeSpent p),
        p_lastPosition :=
          (if truthy_num (lastPosition body) then the (lastPosition body) else p_lastPosition p),
        p_isCompleted := (if truthy_bool (isCompleted body) then True else p_isCompleted p)\<rparr>))"

definition progress_create_data ::
    "env \<Rightarrow> string \<Rightarrow> string \<Rightarrow> enrollment \<Rightarrow> progress_body \<Rightarrow> progress" where
  "progress_create_data en studentId lessonId enrollment body =
     \<lparr>p_studentId = studentId, p_lessonId = lessonId, p_enrollmentId = e_id enrollment,
      p_timeSpent = (if truthy_num (timeSpent body) then the (timeSpent body) else 0),
      p_lastPosition = (if truthy_num (lastPosition body) then the (lastPosition body) else 0),
      p_isCompleted = truthy_bool (isCompleted body),
      p_completedAt = (if truthy_bool (isCompleted body) then Some (now en) else None)\<rparr>"

definition progress_upsert ::
    "env \<Rightarrow> string \<Rightarrow> string \<Rightarrow> (progress \<Rightarrow> progress) \<Rightarrow> progress \<Rightarrow> progress prisma" where
  "progress_upsert en studentId lessonId upd crt = statement en ProgressUpsert (\<lambda>d.
     case update_unique (\<lambda>p. p_studentId p = studentId \<and> p_lessonId p = lessonId) upd (progresses d) of
       Some (p, ps) \<Rightarrow> Inr (p, d\<lparr>progresses := ps\<rparr>)
     | None \<Rightarrow> Inr (crt, d\<lparr>progresses := progresses d @ [crt]\<rparr>))"

text \<open>
  \<open>totalLessons\<close>: the active lessons in active sections of the course.
  \<open>completedLessons\<close>: the student's progress records marked completed whose lesson lies
  in a section of the course.
\<close>

definition totalLessons :: "string \<Rightarrow> db \<Rightarrow> nat" where
  "totalLessons courseId d =
     length (filter (\<lambda>l. l_isActive l \<and>
        (case find (\<lambda>s. s_id s = l_sectionId l) (sections d) of
           None \<Rightarrow> False | Some s \<Rightarrow> s_courseId s = courseId \<and> s_isActive s)) (lessons d))"

definition completedLessons :: "string \<Rightarrow> string \<Rightarrow> db \<Rightarrow> nat" where
  "completedLessons studentId courseId d =
     length (filter (\<lambda>p. p_studentId p = studentId \<and> p_isCompleted p \<and>
        (case find (\<lambda>l. l_id l = p_lessonId p) (lessons d) of
           None \<Rightarrow> False | Some l \<Rightarrow> lesson_of_course courseId d l)) (progresses d))"

definition courseProgress :: "nat \<Rightarrow> nat \<Rightarrow> rat" where
  "courseProgress completedCount totalCount =
     (if totalCount > 0 then (of_nat completedCount / of_nat totalCount) * 100 else 0)"

definition enrollment_update ::
    "env \<Rightarrow> string \<Rightarrow> string \<Rightarrow> (enrollment \<Rightarrow> enrollment) \<Rightarrow> enrollment prisma" where
  "enrollment_update en studentId courseId f = statement en EnrollmentUpdate (\<lambda>d.
     case update_unique (\<lambda>e. e_studentId e = studentId \<and> e_courseId e = courseId) f (enrollments d) of
       None \<Rightarrow> Inl (RecordNotFound EnrollmentUpdate)
     | Some (e, es) \<Rightarrow> Inr (e, d\<lparr>enrollments := es\<rparr>))"

definition certificate_create :: "env \<Rightarrow> certificate \<Rightarrow> certificate prisma" where
  "certificate_create en c = statement en CertificateCreate (\<lambda>d.
     Inr (c, d\<lparr>certificates := certificates d @ [c]\<rparr>))"

definition update_progress ::
    "env \<Rightarrow> string \<Rightarrow> string \<Rightarrow> string \<Rightarrow> progress_body \<Rightarrow> db \<Rightarrow> outcome \<times> db" where
  "update_progress en studentId courseId lessonId body = try_next (
     await (query (enrollment_findUnique studentId courseId)) (\<lambda>enrollment.
     case enrollment of
       None \<Rightarrow> ret (Response 404 ''Enrollment not found'' NoData)
     | Some enrollment \<Rightarrow>
     await (query (lesson_findFirst lessonId courseId)) (\<lambda>lesson.
     case lesson of
       None \<Rightarrow> ret (Response 404 ''Lesson not found'' NoData)
     | Some lesson \<Rightarrow>
     await (eval (progress_update_data body)) (\<lambda>upd.
     await (progress_upsert en studentId lessonId upd
              (progress_create_data en studentId lessonId enrollment body)) (\<lambda>progress.
     await (query (totalLessons courseId)) (\<lambda>totalCount.
     await (query (completedLessons studentId courseId)) (\<lambda>completedCount.
     let cp = courseProgress completedCount totalCount;
         justCompleted = (cp = 100 \<and> e_status enrollment \<noteq> ''COMPLETED'')
     in
     await (enrollment_update en studentId courseId (\<lambda>e.
              if justCompleted
              then e\<lparr>e_progress := cp, e_lastAccessedAt := Some (now en),
                     e_status := ''COMPLETED'', e_completedAt := Some (now en)\<rparr>
              else e\<lparr>e_progress := cp, e_lastAccessedAt := Some (now en)\<rparr>)) (\<lambda>updatedEnrollment.
     if justCompleted then
       await (student_update en studentId
                (\<lambda>s. s\<lparr>st_totalCoursesCompleted := st_totalCoursesCompleted s + 1\<rparr>)) (\<lambda>_.
       await (certificate_create en
                \<lparr>ct_studentId = studentId, ct_courseId = courseId,
                 ct_enrollmentId = e_id enrollment,
                 ct_certificateNumber = certificateNumber en\<rparr>) (\<lambda>_.
       ret (Response 200 ''Progress updated successfully''
              (ProgressData progress cp updatedEnrollment))))
     else
       ret (Response 200 ''Progress updated successfully''
              (ProgressData progress cp updatedEnrollment))))))))))"

section \<open>Payment webhook\<close>

text \<open>
  The payment intent as the webhook receives it from the payment provider: its id, its
  amount in cents, and the metadata that the create-intent route attached.
\<close>

record paymentIntent =
  pi_id :: string
  pi_amount :: int
  pi_courseId :: string
  pi_studentId :: string
  pi_tutorId :: string

datatype event =
  PaymentIntentSucceeded paymentIntent
  | PaymentIntentFailed paymentIntent
  | OtherEvent string

definition payment_findUnique :: "string \<Rightarrow> db \<Rightarrow> payment option" where
  "payment_findUnique stripePaymentId d =
     find (\<lambda>p. pay_stripePaymentId p = stripePaymentId) (payments d)"

definition payment_update :: "env \<Rightarrow> string \<Rightarrow> (payment \<Rightarrow> payment) \<Rightarrow> payment prisma" where
  "payment_update en stripePaymentId f = statement en PaymentUpdate (\<lambda>d.
     case update_unique (\<lambda>p. pay_stripePaymentId p = stripePaymentId) f (payments d) of
       None \<Rightarrow> Inl (RecordNotFound PaymentUpdate)
     | Some (p, ps) \<Rightarrow> Inr (p, d\<lparr>payments := ps\<rparr>))"

definition paymentSuccess_writes :: "env \<Rightarrow> paymentIntent \<Rightarrow> unit prisma" where
  "paymentSuccess_writes en paymentIntent =
     await (payment_update en (pi_id paymentIntent)
              (\<lambda>p. p\<lparr>pay_status := ''COMPLETED'', pay_paidAt := Some (now en)\<rparr>)) (\<lambda>_.
     await (enrollment_create en (pi_studentId paymentIntent) (pi_courseId paymentIntent)) (\<lambda>enrollment.
     await (course_update en (pi_courseId paymentIntent)
              (\<lambda>c. c\<lparr>c_totalEnrollments := c_totalEnrollments c + 1,
                     c_totalRevenue := c_totalRevenue c + of_int (pi_amount paymentIntent) / 100\<rparr>)) (\<lambda>_.
     await (tutor_update en (pi_tutorId paymentIntent)
              (\<lambda>t. t\<lparr>t_totalStudents := t_totalStudents t + 1,
                     t_totalEarnings :=
                       t_totalEarnings t + of_int (pi_amount paymentIntent) / 100 * (85 / 100)\<rparr>)) (\<lambda>_.
     await (student_update en (pi_studentId paymentIntent)
              (\<lambda>s. s\<lparr>st_totalCoursesEnrolled := st_totalCoursesEnrolled s + 1\<rparr>)) (\<lambda>_.
     ret ())))))"

text \<open>
  The helper catches whatever the transaction raises and only logs it; the second
  component of the result is the logged error, if any.
\<close>

definition handlePaymentSuccess :: "env \<Rightarrow> paymentIntent \<Rightarrow> db \<Rightarrow> exn option \<times> db" where
  "handlePaymentSuccess en paymentIntent d =
     (case transaction (paymentSuccess_writes en paymentIntent) d of
        (Inl e, d') \<Rightarrow> (Some e, d')
      | (Inr _, d') \<Rightarrow> (None, d'))"

definition handlePaymentFailure :: "env \<Rightarrow> paymentIntent \<Rightarrow> db \<Rightarrow> exn option \<times> db" where
  "handlePaymentFailure en paymentIntent d =
     (case payment_update en (pi_id paymentIntent)
             (\<lambda>p. p\<lparr>pay_status := ''FAILED'', pay_failedAt := Some (now en)\<rparr>) d of
        (Inl e, d') \<Rightarrow> (Some e, d')
      | (Inr _, d') \<Rightarrow> (None, d'))"

text \<open>
  POST /api/payments/webhook. The provider's library either rejects the signature, with a
  message, or yields the event.
\<close>

definition webhook :: "env \<Rightarrow> string + event \<Rightarrow> db \<Rightarrow> outcome \<times> db" where
  "webhook en constructed d =
     (case constructed of
        Inl message \<Rightarrow> (Response 400 (''Webhook Error: '' @ message) NoData, d)
      | Inr (PaymentIntentSucceeded paymentIntent) \<Rightarrow>
          (Response 200 ''received'' NoData, snd (handlePaymentSuccess en paymentIntent d))
      | Inr (PaymentIntentFailed failedPayment) \<Rightarrow>
          (Response 200 ''received'' NoData, snd (handlePaymentFailure en failedPayment d))
      | Inr (OtherEvent _) \<Rightarrow> (Response 200 ''received'' NoData, d))"

section \<open>Middleware\<close>

text \<open>
  What \<open>auth\<close> attaches to the request as \<open>req.user\<close>: the user row with its profiles,
  and the names of the permissions the user holds through roles or directly.
\<close>

record request_user =
  ru_user :: user
  ru_roles :: "string list"
  ru_studentProfile :: "student option"
  ru_tutorProfile :: "tutor option"
  ru_adminProfile :: "admin option"
  ru_permissions :: "string list"

text \<open>\<open>s.replace(pat, '')\<close>: the first occurrence of \<open>pat\<close> is removed.\<close>

fun remove_first :: "string \<Rightarrow> string \<Rightarrow> string" where
  "remove_first pat [] = []"
| "remove_first pat (c # cs) =
     (if take (length pat) (c # cs) = pat then drop (length pat) (c # cs)
      else c # remove_first pat cs)"

text \<open>The elements of a list in order of first occurrence, as \<open>[...new Set(xs)]\<close>.\<close>

definition distinct_first :: "'a list \<Rightarrow> 'a list" where
  "distinct_first xs = rev (remdups (rev xs))"

definition permission_name :: "db \<Rightarrow> string \<Rightarrow> string list" where
  "permission_name d permissionId =
     map pm_name (filter (\<lambda>p. pm_id p = permissionId) (permissions d))"

definition rolePermissionNames :: "db \<Rightarrow> string \<Rightarrow> string list" where
  "rolePermissionNames d userId =
     concat (map (\<lambda>ur.
       concat (map (\<lambda>rp. permission_name d (rp_permissionId rp))
         (filter (\<lambda>rp. rp_roleId rp = ur_roleId ur) (rolePermissions d))))
       (filter (\<lambda>ur. ur_userId ur = userId) (userRoles d)))"

definition userPermissionNames :: "db \<Rightarrow> string \<Rightarrow> string list" where
  "userPermissionNames d userId =
     concat (map (\<lambda>up. permission_name d (up_permissionId up))
       (filter (\<lambda>up. up_userId up = userId) (userPermissions d)))"

definition roleNames :: "db \<Rightarrow> string \<Rightarrow> string list" where
  "roleNames d userId =
     concat (map (\<lambda>ur. map ro_name (filter (\<lambda>r. ro_id r = ur_roleId ur) (roles d)))
       (filter (\<lambda>ur. ur_userId ur = userId) (userRoles d)))"

text \<open>
  \<open>auth\<close>. The token is the Authorization header without its first \<open>'Bearer '\<close>; the
  JSON-web-token library, a parameter here, either rejects it or yields the user id it
  carries. Every failure is answered 401.
\<close>

definition authenticate ::
    "(string \<Rightarrow> string option) \<Rightarrow> string option \<Rightarrow> db \<Rightarrow> outcome + request_user" where
  "authenticate jwt_verify authorization d =
     (case map_option (remove_first ''Bearer '') authorization of
        None \<Rightarrow> Inl (Response 401 ''No token provided, authorization denied'' NoData)
      | Some token \<Rightarrow>
        if token = [] then Inl (Response 401 ''No token provided, authorization denied'' NoData)
        else
        (case jwt_verify token of
           None \<Rightarrow> Inl (Response 401 ''Token is not valid'' NoData)
         | Some userId \<Rightarrow>
           (case find (\<lambda>u. u_id u = userId) (users d) of
              None \<Rightarrow> Inl (Response 401 ''Token is not valid or user is inactive'' NoData)
            | Some user \<Rightarrow>
              if \<not> u_isActive user
              then Inl (Response 401 ''Token is not valid or user is inactive'' NoData)
              else Inr \<lparr>ru_user = user,
                        ru_roles = roleNames d userId,
                        ru_studentProfile = find (\<lambda>s. st_userId s = userId) (students d),
                        ru_tutorProfile = find (\<lambda>t. t_userId t = userId) (tutors d),
                        ru_adminProfile = find (\<lambda>a. a_userId a = userId) (admins d),
                        ru_permissions =
                          distinct_first (rolePermissionNames d userId @ userPermissionNames d userId)\<rparr>)))"

definition auth ::
    "(string \<Rightarrow> string option) \<Rightarrow> string option \<Rightarrow>
     (request_user \<Rightarrow> db \<Rightarrow> outcome \<times> db) \<Rightarrow> db \<Rightarrow> outcome \<times> db" where
  "auth jwt_verify authorization next_mw d =
     (case authenticate jwt_verify authorization d of
        Inl response \<Rightarrow> (response, d)
      | Inr req_user \<Rightarrow> next_mw req_user d)"

definition isStudent ::
    "request_user option \<Rightarrow> (db \<Rightarrow> outcome \<times> db) \<Rightarrow> db \<Rightarrow> outcome \<times> db" where
  "isStudent req_user next_mw d =
     (case req_user of
        None \<Rightarrow> (Response 403 ''Student access required'' NoData, d)
      | Some u \<Rightarrow>
          if ru_studentProfile u = None
          then (Response 403 ''Student access required'' NoData, d)
          else next_mw d)"

section \<open>The enrollment router\<close>

subsection \<open>GET /api/enrollments\<close>

text \<open>
  The query string after \<open>parseInt\<close>: page and limit default to 1 and 10. A page of 0
  makes \<open>skip\<close> negative, which the ORM refuses. The response's pagination block repeats
  the page and the total count.
\<close>

record list_query =
  q_page :: "nat option"
  q_limit :: "nat option"
  q_status :: "string option"

definition list_enrollments :: "string \<Rightarrow> list_query \<Rightarrow> db \<Rightarrow> outcome \<times> db" where
  "list_enrollments studentId q = try_next (
     let page = (case q_page q of None \<Rightarrow> 1 | Some p \<Rightarrow> p);
         limit = (case q_limit q of None \<Rightarrow> 10 | Some l \<Rightarrow> l);
         matches = (\<lambda>e. e_studentId e = studentId \<and>
                      (case q_status q of None \<Rightarrow> True | Some s \<Rightarrow> s = [] \<or> e_status e = s))
     in
     if page = 0 then throw (ValidationError ''skip'')
     else
     await (query (\<lambda>d. take limit (drop ((page - 1) * limit)
                      (rev (sort_key e_enrolledAt (filter matches (enrollments d))))))) (\<lambda>rows.
     await (query (\<lambda>d. length (filter matches (enrollments d)))) (\<lambda>totalCount.
     ret (Response 200 [] (EnrollmentList rows totalCount)))))"

subsection \<open>GET /api/enrollments/:courseId\<close>

definition get_enrollment :: "string \<Rightarrow> string \<Rightarrow> db \<Rightarrow> outcome \<times> db" where
  "get_enrollment studentId courseId = try_next (
     await (query (enrollment_findUnique studentId courseId)) (\<lambda>enrollment.
     case enrollment of
       None \<Rightarrow> ret (Response 404 ''Enrollment not found'' NoData)
     | Some enrollment \<Rightarrow>
     await (query (\<lambda>d. filter (\<lambda>p. p_enrollmentId p = e_id enrollment) (progresses d))) (\<lambda>progressRecords.
     await (query (\<lambda>d. find (\<lambda>c. ct_enrollmentId c = e_id enrollment) (certificates d))) (\<lambda>certificate.
     ret (Response 200 [] (EnrollmentDetail enrollment progressRecords certificate))))))"

subsection \<open>The five routes\<close>

datatype enrollment_request =
  PostEnroll string
  | GetEnrollments list_query
  | GetEnrollment string
  | PutProgress string string progress_body
  | DeleteEnrollment string

text \<open>Every route is registered as \<open>auth, isStudent, handler\<close>.\<close>

definition student_route ::
    "(string \<Rightarrow> string option) \<Rightarrow> string option \<Rightarrow>
     (request_user \<Rightarrow> db \<Rightarrow> outcome \<times> db) \<Rightarrow> db \<Rightarrow> outcome \<times> db" where
  "student_route jwt_verify authorization handler =
     auth jwt_verify authorization (\<lambda>req_user. isStudent (Some req_user) (handler req_user))"

definition enrollment_handler :: "env \<Rightarrow> enrollment_request \<Rightarrow> request_user \<Rightarrow> db \<Rightarrow> outcome \<times> db" where
  "enrollment_handler en request req_user =
     (let studentId = u_id (ru_user req_user) in
      case request of
        PostEnroll courseId \<Rightarrow> enroll en studentId courseId
      | GetEnrollments q \<Rightarrow> list_enrollments studentId q
      | GetEnrollment courseId \<Rightarrow> get_enrollment studentId courseId
      | PutProgress courseId lessonId body \<Rightarrow> update_progress en studentId courseId lessonId body
      | DeleteEnrollment courseId \<Rightarrow> unenroll en studentId courseId)"

definition enrollments_router ::
    "(string \<Rightarrow> string option) \<Rightarrow> env \<Rightarrow> string option \<Rightarrow> enrollment_request \<Rightarrow>
     db \<Rightarrow> outcome \<times> db" where
  "enrollments_router jwt_verify en authorization request =
     student_route jwt_verify authorization (enrollment_handler en request)"

section \<open>Review routes\<close>

definition review_findUnique :: "string \<Rightarrow> string \<Rightarrow> db \<Rightarrow> review option" where
  "review_findUnique studentId courseId d =
     find (\<lambda>r. r_studentId r = studentId \<and> r_courseId r = courseId) (reviews d)"

definition published_reviews :: "string \<Rightarrow> db \<Rightarrow> review list" where
  "published_reviews courseId d =
     filter (\<lambda>r. r_courseId r = courseId \<and> r_isPublished r) (reviews d)"

text \<open>\<open>aggregate({ _avg: { rating: true } })\<close>: null over no rows.\<close>

definition review_avg :: "string \<Rightarrow> db \<Rightarrow> rat option" where
  "review_avg courseId d =
     (let rs = published_reviews courseId d
      in if rs = [] then None
         else Some (of_int (sum_list (map r_rating rs)) / of_nat (length rs)))"

definition review_count :: "string \<Rightarrow> db \<Rightarrow> nat" where
  "review_count courseId d = length (published_reviews courseId d)"

text \<open>\<open>avg || 0\<close>\<close>

definition or_zero :: "rat option \<Rightarrow> rat" where
  "or_zero a = (case a of None \<Rightarrow> 0 | Some x \<Rightarrow> x)"

definition review_create :: "env \<Rightarrow> review \<Rightarrow> review prisma" where
  "review_create en r = statement en ReviewCreate (\<lambda>d.
     case review_findUnique (r_studentId r) (r_courseId r) d of
       Some _ \<Rightarrow> Inl (UniqueConstraint ReviewCreate)
     | None \<Rightarrow> Inr (r, d\<lparr>reviews := reviews d @ [r]\<rparr>))"

definition review_update :: "env \<Rightarrow> string \<Rightarrow> string \<Rightarrow> (review \<Rightarrow> review) \<Rightarrow> review prisma" where
  "review_update en studentId courseId f = statement en ReviewUpdate (\<lambda>d.
     case update_unique (\<lambda>r. r_studentId r = studentId \<and> r_courseId r = courseId) f (reviews d) of
       None \<Rightarrow> Inl (RecordNotFound ReviewUpdate)
     | Some (r, rs) \<Rightarrow> Inr (r, d\<lparr>reviews := rs\<rparr>))"

definition review_delete :: "env \<Rightarrow> string \<Rightarrow> string \<Rightarrow> review prisma" where
  "review_delete en studentId courseId = statement en ReviewDelete (\<lambda>d.
     case delete_unique (\<lambda>r. r_studentId r = studentId \<and> r_courseId r = courseId) (reviews d) of
       None \<Rightarrow> Inl (RecordNotFound ReviewDelete)
     | Some (r, rs) \<Rightarrow> Inr (r, d\<lparr>reviews := rs\<rparr>))"

subsection \<open>POST /api/reviews/:courseId\<close>

text \<open>The body after validation: a rating from 1 to 5, a title and a content that may be null.\<close>

record review_body =
  b_rating :: int
  b_title :: "string option"
  b_content :: "string option"

definition create_review ::
    "env \<Rightarrow> string \<Rightarrow> string \<Rightarrow> review_body \<Rightarrow> db \<Rightarrow> outcome \<times> db" where
  "create_review en studentId courseId body = try_next (
     await (query (course_findUnique courseId)) (\<lambda>course.
     case course of
       None \<Rightarrow> ret (Response 404 ''Course not found'' NoData)
     | Some course \<Rightarrow>
     await (query (enrollment_findUnique studentId courseId)) (\<lambda>enrollment.
     case enrollment of
       None \<Rightarrow> ret (Response 403 ''You must be enrolled in this course to leave a review'' NoData)
     | Some enrollment \<Rightarrow>
     await (query (review_findUnique studentId courseId)) (\<lambda>existingReview.
     case existingReview of
       Some _ \<Rightarrow> ret (Response 400 ''You have already reviewed this course'' NoData)
     | None \<Rightarrow>
     await (review_create en
              \<lparr>r_studentId = studentId, r_courseId = courseId, r_rating = b_rating body,
               r_title = b_title body, r_content = b_content body, r_isPublished = True,
               r_isVerified = (e_status enrollment = ''COMPLETED'')\<rparr>) (\<lambda>review.
     await (query (review_avg courseId)) (\<lambda>newAvgRating.
     await (query (review_count courseId)) (\<lambda>reviewCount.
     await (course_update en courseId
              (\<lambda>c. c\<lparr>c_averageRating := or_zero newAvgRating,
                     c_totalReviews := int reviewCount\<rparr>)) (\<lambda>_.
     await (tutor_update en (c_tutorId course)
              (\<lambda>t. t\<lparr>t_totalReviews := t_totalReviews t + 1\<rparr>)) (\<lambda>_.
     ret (Response 201 ''Review created successfully'' (ReviewData review)))))))))))"

subsection \<open>PUT /api/reviews/:courseId\<close>

text \<open>
  The validated update: each field may be absent (\<open>None\<close>); a present title or content
  may be null.
\<close>

record review_update_body =
  ub_rating :: "int option"
  ub_title :: "string option option"
  ub_content :: "string option option"

definition apply_update :: "review_update_body \<Rightarrow> review \<Rightarrow> review" where
  "apply_update updateData r =
     r\<lparr>r_rating := (case ub_rating updateData of None \<Rightarrow> r_rating r | Some x \<Rightarrow> x),
       r_title := (case ub_title updateData of None \<Rightarrow> r_title r | Some x \<Rightarrow> x),
       r_content := (case ub_content updateData of None \<Rightarrow> r_content r | Some x \<Rightarrow> x)\<rparr>"

definition update_review ::
    "env \<Rightarrow> string \<Rightarrow> string \<Rightarrow> review_update_body \<Rightarrow> db \<Rightarrow> outcome \<times> db" where
  "update_review en studentId courseId updateData = try_next (
     await (query (review_findUnique studentId courseId)) (\<lambda>existingReview.
     case existingReview of
       None \<Rightarrow> ret (Response 404 ''Review not found'' NoData)
     | Some _ \<Rightarrow>
     await (review_update en studentId courseId (apply_update updateData)) (\<lambda>review.
     if ub_rating updateData \<noteq> None then
       await (query (review_avg courseId)) (\<lambda>newAvgRating.
       await (course_update en courseId
                (\<lambda>c. c\<lparr>c_averageRating := or_zero newAvgRating\<rparr>)) (\<lambda>_.
       ret (Response 200 ''Review updated successfully'' (ReviewData review))))
     else
       ret (Response 200 ''Review updated successfully'' (ReviewData review)))))"

subsection \<open>DELETE /api/reviews/:courseId\<close>

text \<open>
  The review is read together with its course; the tutor to update is the tutor of that
  course as it was read.
\<close>

definition delete_review :: "env \<Rightarrow> string \<Rightarrow> string \<Rightarrow> db \<Rightarrow> outcome \<times> db" where
  "delete_review en studentId courseId = try_next (
     await (query (review_findUnique studentId courseId)) (\<lambda>review.
     case review of
       None \<Rightarrow> ret (Response 404 ''Review not found'' NoData)
     | Some review \<Rightarrow>
     await (query (course_findUnique (r_courseId review))) (\<lambda>review_course.
     await (review_delete en studentId courseId) (\<lambda>_.
     await (query (review_avg courseId)) (\<lambda>newAvgRating.
     await (query (review_count courseId)) (\<lambda>reviewCount.
     await (course_update en courseId
              (\<lambda>c. c\<lparr>c_averageRating := or_zero newAvgRating,
                     c_totalReviews := int reviewCount\<rparr>)) (\<lambda>_.
     case review_course of
       None \<Rightarrow> throw (TypeError ''tutorId'')
     | Some course \<Rightarrow>
     await (tutor_update en (c_tutorId course)
              (\<lambda>t. t\<lparr>t_totalReviews := t_totalReviews t - 1\<rparr>)) (\<lambda>_.
     ret (Response 200 ''Review deleted successfully'' NoData)))))))))"

subsection \<open>The derived fields of a course\<close>

text \<open>
  The stored average rating of a course is the mean of the ratings of its published
  reviews, 0 when it has none, and the stored number of reviews is their count.
\<close>

definition mean_rating :: "string \<Rightarrow> db \<Rightarrow> rat" where
  "mean_rating courseId d =
     (if published_reviews courseId d = [] then 0
      else of_int (sum_list (map r_rating (published_reviews courseId d)))
           / of_nat (length (published_reviews courseId d)))"

definition review_stats_ok :: "string \<Rightarrow> db \<Rightarrow> bool" where
  "review_stats_ok courseId d =
     (case course_findUnique courseId d of
        None \<Rightarrow> True
      | Some c \<Rightarrow> c_averageRating c = mean_rating courseId d
                \<and> c_totalReviews c = int (length (published_reviews courseId d)))"

section \<open>GET /api/auth/me\<close>

text \<open>The rows as the ORM returns them: one property per column.\<close>

definition user_object :: "user \<Rightarrow> (string \<times> json) list" where
  "user_object u =
     [(''id'', JStr (u_id u)), (''email'', JStr (u_email u)), (''username'', JStr (u_username u)),
      (''firstName'', JStr (u_firstName u)), (''lastName'', JStr (u_lastName u)),
      (''password'', JStr (u_password u)), (''isActive'', JBool (u_isActive u))]"

definition permission_json :: "db \<Rightarrow> string \<Rightarrow> json" where
  "permission_json d permissionId =
     (case find (\<lambda>p. pm_id p = permissionId) (permissions d) of
        None \<Rightarrow> JNull
      | Some p \<Rightarrow> JObj [(''id'', JStr (pm_id p)), (''name'', JStr (pm_name p))])"

definition role_json :: "db \<Rightarrow> string \<Rightarrow> json" where
  "role_json d roleId =
     (case find (\<lambda>r. ro_id r = roleId) (roles d) of
        None \<Rightarrow> JNull
      | Some r \<Rightarrow> JObj [(''id'', JStr (ro_id r)), (''name'', JStr (ro_name r)),
          (''permissions'', JArr (map (\<lambda>rp.
              JObj [(''roleId'', JStr (rp_roleId rp)), (''permissionId'', JStr (rp_permissionId rp)),
                    (''permission'', permission_json d (rp_permissionId rp))])
            (filter (\<lambda>rp. rp_roleId rp = roleId) (rolePermissions d))))])"

definition student_json :: "student \<Rightarrow> json" where
  "student_json s = JObj [(''userId'', JStr (st_userId s)),
     (''totalCoursesEnrolled'', JNum (of_int (st_totalCoursesEnrolled s))),
     (''totalCoursesCompleted'', JNum (of_int (st_totalCoursesCompleted s)))]"

definition tutor_json :: "tutor \<Rightarrow> json" where
  "tutor_json t = JObj [(''id'', JStr (t_id t)), (''userId'', JStr (t_userId t)),
     (''totalStudents'', JNum (of_int (t_totalStudents t))),
     (''totalEarnings'', JNum (t_totalEarnings t)),
     (''totalReviews'', JNum (of_int (t_totalReviews t)))]"

definition admin_json :: "admin \<Rightarrow> json" where
  "admin_json a = JObj [(''userId'', JStr (a_userId a))]"

definition or_null :: "('a \<Rightarrow> json) \<Rightarrow> 'a option \<Rightarrow> json" where
  "or_null f x = (case x of None \<Rightarrow> JNull | Some a \<Rightarrow> f a)"

text \<open>The relations that the route includes in the user it reads.\<close>

definition user_includes :: "db \<Rightarrow> string \<Rightarrow> (string \<times> json) list" where
  "user_includes d userId =
     [(''roles'', JArr (map (\<lambda>ur.
          JObj [(''userId'', JStr (ur_userId ur)), (''roleId'', JStr (ur_roleId ur)),
                (''role'', role_json d (ur_roleId ur))])
        (filter (\<lambda>ur. ur_userId ur = userId) (userRoles d)))),
      (''permissions'', JArr (map (\<lambda>up.
          JObj [(''userId'', JStr (up_userId up)), (''permissionId'', JStr (up_permissionId up)),
                (''permission'', permission_json d (up_permissionId up))])
        (filter (\<lambda>up. up_userId up = userId) (userPermissions d)))),
      (''studentProfile'', or_null student_json (find (\<lambda>s. st_userId s = userId) (students d))),
      (''tutorProfile'', or_null tutor_json (find (\<lambda>t. t_userId t = userId) (tutors d))),
      (''adminProfile'', or_null admin_json (find (\<lambda>a. a_userId a = userId) (admins d)))]"

definition user_findUnique_include :: "string \<Rightarrow> db \<Rightarrow> (string \<times> json) list option" where
  "user_findUnique_include userId d =
     map_option (\<lambda>u. user_object u @ user_includes d (u_id u))
       (find (\<lambda>u. u_id u = userId) (users d))"

text \<open>\<open>const { password: _, ...userWithoutPassword } = user\<close>\<close>

definition without_password :: "(string \<times> json) list \<Rightarrow> (string \<times> json) list" where
  "without_password obj = filter (\<lambda>kv. fst kv \<noteq> ''password'') obj"

definition me_handler :: "request_user \<Rightarrow> db \<Rightarrow> outcome \<times> db" where
  "me_handler req_user = try_next (
     await (query (user_findUnique_include (u_id (ru_user req_user)))) (\<lambda>found.
     case found of
       None \<Rightarrow> ret (Response 404 ''User not found'' NoData)
     | Some usr \<Rightarrow> ret (Response 200 [] (UserData (without_password usr)))))"

definition get_me :: "(string \<Rightarrow> string option) \<Rightarrow> string option \<Rightarrow> db \<Rightarrow> outcome \<times> db" where
  "get_me jwt_verify authorization = auth jwt_verify authorization me_handler"

subsection \<open>What the claim about the password needs\<close>

text \<open>Whether a JSON value has a property of the given name, at any depth.\<close>

primrec has_key :: "string \<Rightarrow> json \<Rightarrow> bool" where
  "has_key k JNull = False"
| "has_key k (JBool b) = False"
| "has_key k (JNum n) = False"
| "has_key k (JStr s) = False"
| "has_key k (JArr js) = list_ex id (map (has_key k) js)"
| "has_key k (JObj kvs) = list_ex (\<lambda>p. fst p = k \<or> snd p) (map (map_prod id (has_key k)) kvs)"

text \<open>The database with the password column of one user replaced.\<close>

definition set_password :: "string \<Rightarrow> string \<Rightarrow> db \<Rightarrow> db" where
  "set_password userId pw d =
     d\<lparr>users := map (\<lambda>u. if u_id u = userId then u\<lparr>u_password := pw\<rparr> else u) (users d)\<rparr>"

section \<open>A small marketplace\<close>

text \<open>
  Concrete rows on which the handlers are run below: a free and a paid course of one
  tutor, a student enrolled in the paid course, and variations of that state.
\<close>

definition demo_env :: env where
  "demo_env = \<lparr>rejects = (\<lambda>_. False), now = 1000, newId = ''e9'', certificateNumber = ''CERT-1000-AB12CD''\<rparr>"

definition demo_free :: course where
  "demo_free = \<lparr>c_id = ''c1'', c_isPublished = True, c_status = ''PUBLISHED'', c_price = 0,
     c_currency = ''USD'', c_tutorId = ''t1'', c_totalEnrollments = 0, c_totalRevenue = 0,
     c_averageRating = 0, c_totalReviews = 0\<rparr>"

definition demo_paid :: course where
  "demo_paid = demo_free\<lparr>c_id := ''c2'', c_price := 50, c_totalEnrollments := 1\<rparr>"

definition demo_tutor :: tutor where
  "demo_tutor = \<lparr>t_id = ''t1'', t_userId = ''u2'', t_totalStudents = 1, t_totalEarnings = 0,
     t_totalReviews = 0\<rparr>"

definition demo_student :: student where
  "demo_student = \<lparr>st_userId = ''u1'', st_totalCoursesEnrolled = 1, st_totalCoursesCompleted = 0\<rparr>"

definition demo_enrollment :: enrollment where
  "demo_enrollment = \<lparr>e_id = ''e1'', e_studentId = ''u1'', e_courseId = ''c2'', e_status = ''ACTIVE'',
     e_progress = 0, e_enrolledAt = 500, e_lastAccessedAt = None, e_completedAt = None\<rparr>"

definition demo_db :: db where
  "demo_db = \<lparr>courses = [demo_free, demo_paid], sections = [], lessons = [],
     tutors = [demo_tutor], students = [demo_student], enrollments = [demo_enrollment],
     progresses = [], certificates = [], payments = [], reviews = [], users = [],
     userRoles = [], roles = [], rolePermissions = [], permissions = [], userPermissions = [],
     admins = []\<rparr>"

definition demo_section :: course_section where
  "demo_section = \<lparr>s_id = ''s1'', s_courseId = ''c2'', s_isActive = True\<rparr>"

definition demo_lesson :: lesson where
  "demo_lesson = \<lparr>l_id = ''l1'', l_sectionId = ''s1'', l_isActive = True\<rparr>"

definition demo_progress :: progress where
  "demo_progress = \<lparr>p_studentId = ''u1'', p_lessonId = ''l1'', p_enrollmentId = ''e1'',
     p_timeSpent = 10, p_lastPosition = 0, p_isCompleted = True, p_completedAt = Some 900\<rparr>"

text \<open>A course of one active lesson, which the enrolled student has completed.\<close>

definition demo_learning_db :: db where
  "demo_learning_db = demo_db\<lparr>sections := [demo_section], lessons := [demo_lesson],
     progresses := [demo_progress]\<rparr>"

text \<open>
  The same course with a second, deactivated lesson that the student completed before it
  was deactivated.
\<close>

definition demo_retired_db :: db where
  "demo_retired_db = demo_db\<lparr>sections := [demo_section],
     lessons := [demo_lesson, demo_lesson\<lparr>l_id := ''l2'', l_isActive := False\<rparr>],
     progresses := [demo_progress, demo_progress\<lparr>p_lessonId := ''l2''\<rparr>]\<rparr>"

definition demo_body :: progress_body where
  "demo_body = \<lparr>timeSpent = Some 30, lastPosition = None, isCompleted = None\<rparr>"

definition demo_payment :: payment where
  "demo_payment = \<lparr>pay_stripePaymentId = ''pi_1'', pay_status = ''PENDING'', pay_paidAt = None,
     pay_failedAt = None\<rparr>"

definition demo_intent :: paymentIntent where
  "demo_intent = \<lparr>pi_id = ''pi_1'', pi_amount = 5000, pi_courseId = ''c2'',
     pi_studentId = ''u1'', pi_tutorId = ''t1''\<rparr>"

text \<open>The demo student has paid for the second course and is not yet enrolled in it.\<close>

definition demo_paying_db :: db where
  "demo_paying_db = demo_db\<lparr>enrollments := [], payments := [demo_payment]\<rparr>"

definition demo_tutor_user :: user where
  "demo_tutor_user = \<lparr>u_id = ''u2'', u_email = ''tutor@edustack.com'', u_username = ''tutor'',
     u_firstName = ''Tia'', u_lastName = ''Tutor'', u_password = ''$2a$12$hash'', u_isActive = True\<rparr>"

definition demo_verify :: "string \<Rightarrow> string option" where
  "demo_verify token = (if token = ''tok-u2'' then Some ''u2'' else None)"

definition demo_users_db :: db where
  "demo_users_db = demo_db\<lparr>users := [demo_tutor_user]\<rparr>"

definition demo_review :: review where
  "demo_review = \<lparr>r_studentId = ''u1'', r_courseId = ''c2'', r_rating = 5,
     r_title = Some ''Excellent'', r_content = None, r_isPublished = True, r_isVerified = True\<rparr>"

text \<open>
  The state the seed script leaves: a published review on a course whose stored average
  and count were never written.
\<close>

definition demo_seeded_db :: db where
  "demo_seeded_db = demo_db\<lparr>reviews := [demo_review]\<rparr>"

text \<open>The same review with the course's derived fields in step with it.\<close>

definition demo_reviewed_db :: db where
  "demo_reviewed_db = demo_db\<lparr>reviews := [demo_review],
     courses := [demo_free, demo_paid\<lparr>c_averageRating := 5, c_totalReviews := 1\<rparr>]\<rparr>"

section \<open>Properties\<close>

lemma update_unique_hit:
  "find P xs = Some x \<Longrightarrow> \<exists>ys. update_unique P f xs = Some (f x, ys)"
  by (induction xs) (auto split: if_splits)

lemma update_unique_miss: "find P xs = None \<Longrightarrow> update_unique P f xs = None"
  by (induction xs) (auto split: if_splits)

lemma update_unique_result:
  assumes "update_unique P f xs = Some (y, ys)" and "\<And>x. P x \<Longrightarrow> P (f x)"
  shows "\<exists>x. find P xs = Some x \<and> y = f x \<and> find P ys = Some (f x)"
  using assms by (induction xs arbitrary: ys) (auto split: if_splits)

lemma update_unique_split:
  "update_unique P f xs = Some (y, ys) \<Longrightarrow>
     \<exists>as x bs. xs = as @ x # bs \<and> ys = as @ f x # bs \<and> y = f x \<and> P x \<and> (\<forall>a\<in>set as. \<not> P a)"
proof (induction xs arbitrary: ys)
  case Nil
  then show ?case by simp
next
  case (Cons z zs)
  show ?case
  proof (cases "P z")
    case True
    with Cons.prems have "ys = f z # zs" "y = f z" by auto
    with True have "z # zs = [] @ z # zs \<and> ys = [] @ f z # zs \<and> y = f z \<and> P z \<and> (\<forall>a\<in>set []. \<not> P a)"
      by simp
    then show ?thesis by blast
  next
    case False
    with Cons.prems obtain ys' where u: "update_unique P f zs = Some (y, ys')" and ys: "ys = z # ys'"
      by auto
    from Cons.IH [OF u] obtain as x bs where
      "zs = as @ x # bs" "ys' = as @ f x # bs" "y = f x" "P x" "\<forall>a\<in>set as. \<not> P a" by blast
    with False ys have "z # zs = (z # as) @ x # bs \<and> ys = (z # as) @ f x # bs \<and> y = f x \<and> P x
        \<and> (\<forall>a\<in>set (z # as). \<not> P a)"
      by simp
    then show ?thesis by blast
  qed
qed

lemma delete_unique_split:
  "delete_unique P xs = Some (y, ys) \<Longrightarrow>
     \<exists>as bs. xs = as @ y # bs \<and> ys = as @ bs \<and> P y \<and> (\<forall>a\<in>set as. \<not> P a)"
proof (induction xs arbitrary: ys)
  case Nil
  then show ?case by simp
next
  case (Cons z zs)
  show ?case
  proof (cases "P z")
    case True
    with Cons.prems have "ys = zs" "y = z" by auto
    with True have "z # zs = [] @ y # zs \<and> ys = [] @ zs \<and> P y \<and> (\<forall>a\<in>set []. \<not> P a)"
      by simp
    then show ?thesis by blast
  next
    case False
    with Cons.prems obtain ys' where u: "delete_unique P zs = Some (y, ys')" and ys: "ys = z # ys'"
      by auto
    from Cons.IH [OF u] obtain as bs where
      "zs = as @ y # bs" "ys' = as @ bs" "P y" "\<forall>a\<in>set as. \<not> P a" by blast
    with False ys have "z # zs = (z # as) @ y # bs \<and> ys = (z # as) @ bs \<and> P y
        \<and> (\<forall>a\<in>set (z # as). \<not> P a)"
      by simp
    then show ?thesis by blast
  qed
qed

lemma delete_unique_hit: "find P xs = Some x \<Longrightarrow> \<exists>ys. delete_unique P xs = Some (x, ys)"
  by (induction xs) (auto split: if_splits)

lemmas prisma_defs = try_next_def await_def ret_def query_def statement_def transaction_def

lemma enroll_404:
  "published_course courseId d = None \<Longrightarrow>
   enroll en studentId courseId d =
     (Response 404 ''Course not found or not available for enrollment'' NoData, d)"
  by (simp add: enroll_def prisma_defs)

lemma enroll_400:
  "published_course courseId d = Some c \<Longrightarrow> enrollment_findUnique studentId courseId d = Some e \<Longrightarrow>
   enroll en studentId courseId d = (Response 400 ''Already enrolled in this course'' NoData, d)"
  by (simp add: enroll_def prisma_defs)

lemma enroll_402:
  "published_course courseId d = Some c \<Longrightarrow> enrollment_findUnique studentId courseId d = None \<Longrightarrow>
   c_price c \<noteq> 0 \<Longrightarrow>
   enroll en studentId courseId d =
     (Response 402 ''Payment required for this course'' (PaymentRequired courseId (c_price c) (c_currency c)), d)"
  by (simp add: enroll_def prisma_defs)


lemma find_weaken:
  "find P xs = Some x \<Longrightarrow> (\<And>y. P y \<Longrightarrow> Q y) \<Longrightarrow> \<exists>z. find Q xs = Some z"
  by (induction xs) (auto split: if_splits)

lemma update_unique_key:
  assumes "find P xs = Some x" and "\<And>y. P y \<Longrightarrow> P (f y)"
  shows "\<exists>ys. update_unique P f xs = Some (f x, ys) \<and> find P ys = Some (f x)"
proof -
  from update_unique_hit [OF assms(1)] obtain ys where u: "update_unique P f xs = Some (f x, ys)"
    by blast
  from update_unique_result [OF u assms(2)] have "find P ys = Some (f x)"
    using assms(1) by auto
  with u show ?thesis by blast
qed

lemma enroll_201:
  assumes pc: "published_course courseId d = Some c"
    and ne: "enrollment_findUnique studentId courseId d = None"
    and free: "c_price c = 0"
    and acc: "\<forall>s. \<not> rejects en s"
    and tu: "tutor_findUnique (c_tutorId c) d = Some t"
    and st: "student_findUnique studentId d = Some s"
  shows "\<exists>e d' c0. enroll en studentId courseId d =
             (Response 201 ''Successfully enrolled in course'' (EnrollmentData e), d')
     \<and> e_studentId e = studentId \<and> e_courseId e = courseId \<and> e_status e = ''ACTIVE''
     \<and> enrollments d' = enrollments d @ [e]
     \<and> course_findUnique courseId d = Some c0
     \<and> course_findUnique courseId d' = Some (c0\<lparr>c_totalEnrollments := c_totalEnrollments c0 + 1\<rparr>)
     \<and> tutor_findUnique (c_tutorId c) d' = Some (t\<lparr>t_totalStudents := t_totalStudents t + 1\<rparr>)
     \<and> student_findUnique studentId d' =
          Some (s\<lparr>st_totalCoursesEnrolled := st_totalCoursesEnrolled s + 1\<rparr>)"
proof -
  from pc obtain c0 where c0: "find (\<lambda>c. c_id c = courseId) (courses d) = Some c0"
    unfolding published_course_def using find_weaken [of _ "courses d" c "\<lambda>c. c_id c = courseId"]
    by blast
  obtain cs where cs: "update_unique (\<lambda>c. c_id c = courseId)
        (\<lambda>c. c\<lparr>c_totalEnrollments := c_totalEnrollments c + 1\<rparr>) (courses d)
      = Some (c0\<lparr>c_totalEnrollments := c_totalEnrollments c0 + 1\<rparr>, cs)"
    and cs': "find (\<lambda>c. c_id c = courseId) cs = Some (c0\<lparr>c_totalEnrollments := c_totalEnrollments c0 + 1\<rparr>)"
    using update_unique_key [OF c0, of "\<lambda>c. c\<lparr>c_totalEnrollments := c_totalEnrollments c + 1\<rparr>"]
    by auto
  obtain ts where ts: "update_unique (\<lambda>x. t_id x = c_tutorId c)
        (\<lambda>t. t\<lparr>t_totalStudents := t_totalStudents t + 1\<rparr>) (tutors d)
      = Some (t\<lparr>t_totalStudents := t_totalStudents t + 1\<rparr>, ts)"
    and ts': "find (\<lambda>x. t_id x = c_tutorId c) ts = Some (t\<lparr>t_totalStudents := t_totalStudents t + 1\<rparr>)"
    using update_unique_key [OF tu [unfolded tutor_findUnique_def],
        of "\<lambda>t. t\<lparr>t_totalStudents := t_totalStudents t + 1\<rparr>"]
    by auto
  obtain ss where ss: "update_unique (\<lambda>x. st_userId x = studentId)
        (\<lambda>s. s\<lparr>st_totalCoursesEnrolled := st_totalCoursesEnrolled s + 1\<rparr>) (students d)
      = Some (s\<lparr>st_totalCoursesEnrolled := st_totalCoursesEnrolled s + 1\<rparr>, ss)"
    and ss': "find (\<lambda>x. st_userId x = studentId) ss
      = Some (s\<lparr>st_totalCoursesEnrolled := st_totalCoursesEnrolled s + 1\<rparr>)"
    using update_unique_key [OF st [unfolded student_findUnique_def],
        of "\<lambda>s. s\<lparr>st_totalCoursesEnrolled := st_totalCoursesEnrolled s + 1\<rparr>"]
    by auto
  show ?thesis
    using pc ne free acc c0 cs cs' ts ts' ss ss'
    by (simp add: enroll_def prisma_defs enrollment_create_def course_update_def tutor_update_def
        student_update_def course_findUnique_def tutor_findUnique_def student_findUnique_def
        enrollment_findUnique_def Let_def)
qed

text \<open>
  C7. An enrollment request answers 404 when no published course has the given id and 400
  when the student is already enrolled, in both cases leaving the database as it was. For a
  course with a price other than 0 it answers 402, again without a write. For a course
  whose price is 0, when the database accepts the writes and holds the tutor and student
  rows the request points to, it answers 201, appends one enrollment with status ACTIVE for
  this student and course, and adds one to the course's totalEnrollments, to the tutor's
  totalStudents and to the student's totalCoursesEnrolled.
\<close>

theorem enroll_outcomes:
  "(published_course courseId d = None \<longrightarrow>
      enroll en studentId courseId d =
        (Response 404 ''Course not found or not available for enrollment'' NoData, d))
   \<and> (\<forall>c e. published_course courseId d = Some c
          \<and> enrollment_findUnique studentId courseId d = Some e \<longrightarrow>
      enroll en studentId courseId d = (Response 400 ''Already enrolled in this course'' NoData, d))
   \<and> (\<forall>c. published_course courseId d = Some c
          \<and> enrollment_findUnique studentId courseId d = None \<and> c_price c \<noteq> 0 \<longrightarrow>
      enroll en studentId courseId d =
        (Response 402 ''Payment required for this course''
           (PaymentRequired courseId (c_price c) (c_currency c)), d))
   \<and> (\<forall>c t s. published_course courseId d = Some c
          \<and> enrollment_findUnique studentId courseId d = None \<and> c_price c = 0
          \<and> (\<forall>w. \<not> rejects en w)
          \<and> tutor_findUnique (c_tutorId c) d = Some t
          \<and> student_findUnique studentId d = Some s \<longrightarrow>
      (\<exists>e d' c0. enroll en studentId courseId d =
             (Response 201 ''Successfully enrolled in course'' (EnrollmentData e), d')
         \<and> e_studentId e = studentId \<and> e_courseId e = courseId \<and> e_status e = ''ACTIVE''
         \<and> enrollments d' = enrollments d @ [e]
         \<and> course_findUnique courseId d = Some c0
         \<and> course_findUnique courseId d' =
              Some (c0\<lparr>c_totalEnrollments := c_totalEnrollments c0 + 1\<rparr>)
         \<and> tutor_findUnique (c_tutorId c) d' = Some (t\<lparr>t_totalStudents := t_totalStudents t + 1\<rparr>)
         \<and> student_findUnique studentId d' =
              Some (s\<lparr>st_totalCoursesEnrolled := st_totalCoursesEnrolled s + 1\<rparr>)))"
proof (intro conjI allI impI)
  assume "published_course courseId d = None"
  then show "enroll en studentId courseId d =
        (Response 404 ''Course not found or not available for enrollment'' NoData, d)"
    by (rule enroll_404)
next
  fix c e
  assume "published_course courseId d = Some c \<and> enrollment_findUnique studentId courseId d = Some e"
  then show "enroll en studentId courseId d = (Response 400 ''Already enrolled in this course'' NoData, d)"
    using enroll_400 by blast
next
  fix c
  assume "published_course courseId d = Some c
          \<and> enrollment_findUnique studentId courseId d = None \<and> c_price c \<noteq> 0"
  then show "enroll en studentId courseId d =
        (Response 402 ''Payment required for this course''
           (PaymentRequired courseId (c_price c) (c_currency c)), d)"
    using enroll_402 by blast
next
  fix c t s
  assume h: "published_course courseId d = Some c
          \<and> enrollment_findUnique studentId courseId d = None \<and> c_price c = 0
          \<and> (\<forall>w. \<not> rejects en w)
          \<and> tutor_findUnique (c_tutorId c) d = Some t
          \<and> student_findUnique studentId d = Some s"
  show "\<exists>e d' c0. enroll en studentId courseId d =
             (Response 201 ''Successfully enrolled in course'' (EnrollmentData e), d')
         \<and> e_studentId e = studentId \<and> e_courseId e = courseId \<and> e_status e = ''ACTIVE''
         \<and> enrollments d' = enrollments d @ [e]
         \<and> course_findUnique courseId d = Some c0
         \<and> course_findUnique courseId d' =
              Some (c0\<lparr>c_totalEnrollments := c_totalEnrollments c0 + 1\<rparr>)
         \<and> tutor_findUnique (c_tutorId c) d' = Some (t\<lparr>t_totalStudents := t_totalStudents t + 1\<rparr>)
         \<and> student_findUnique studentId d' =
              Some (s\<lparr>st_totalCoursesEnrolled := st_totalCoursesEnrolled s + 1\<rparr>)"
    by (rule enroll_201 [of courseId d c studentId en t s]) (simp_all add: h)
qed

lemmas demo_defs = demo_db_def demo_env_def demo_free_def demo_paid_def demo_tutor_def
  demo_student_def demo_enrollment_def

theorem enroll_outcomes_witness:
  "published_course ''c1'' demo_db = Some demo_free
   \<and> enrollment_findUnique ''u1'' ''c1'' demo_db = None \<and> c_price demo_free = 0
   \<and> (\<forall>w. \<not> rejects demo_env w)
   \<and> tutor_findUnique (c_tutorId demo_free) demo_db = Some demo_tutor
   \<and> student_findUnique ''u1'' demo_db = Some demo_student
   \<and> fst (enroll demo_env ''u1'' ''c1'' demo_db) =
       Response 201 ''Successfully enrolled in course''
         (EnrollmentData (demo_enrollment\<lparr>e_id := ''e9'', e_courseId := ''c1'', e_enrolledAt := 1000\<rparr>))
   \<and> student_findUnique ''u1'' (snd (enroll demo_env ''u1'' ''c1'' demo_db)) =
       Some (demo_student\<lparr>st_totalCoursesEnrolled := 2\<rparr>)
   \<and> enroll demo_env ''u1'' ''c9'' demo_db =
        (Response 404 ''Course not found or not available for enrollment'' NoData, demo_db)
   \<and> enroll demo_env ''u1'' ''c2'' demo_db =
        (Response 400 ''Already enrolled in this course'' NoData, demo_db)
   \<and> enroll demo_env ''u7'' ''c2'' demo_db =
        (Response 402 ''Payment required for this course'' (PaymentRequired ''c2'' 50 ''USD''), demo_db)"
proof -
  have h: "published_course ''c1'' demo_db = Some demo_free
     \<and> enrollment_findUnique ''u1'' ''c1'' demo_db = None \<and> c_price demo_free = 0
     \<and> (\<forall>w. \<not> rejects demo_env w)
     \<and> tutor_findUnique (c_tutorId demo_free) demo_db = Some demo_tutor
     \<and> student_findUnique ''u1'' demo_db = Some demo_student"
    by (simp add: demo_defs published_course_def enrollment_findUnique_def tutor_findUnique_def
        student_findUnique_def)
  have a: "published_course ''c9'' demo_db = None"
    by (simp add: demo_defs published_course_def)
  have b: "published_course ''c2'' demo_db = Some demo_paid
     \<and> enrollment_findUnique ''u1'' ''c2'' demo_db = Some demo_enrollment"
    by (simp add: demo_defs published_course_def enrollment_findUnique_def)
  have c: "published_course ''c2'' demo_db = Some demo_paid
     \<and> enrollment_findUnique ''u7'' ''c2'' demo_db = None \<and> c_price demo_paid \<noteq> 0"
    by (simp add: demo_defs published_course_def enrollment_findUnique_def)
  have p: "c_price demo_paid = 50" "c_currency demo_paid = ''USD''"
    by (simp_all add: demo_defs)
  have ev: "fst (enroll demo_env ''u1'' ''c1'' demo_db) =
       Response 201 ''Successfully enrolled in course''
         (EnrollmentData (demo_enrollment\<lparr>e_id := ''e9'', e_courseId := ''c1'', e_enrolledAt := 1000\<rparr>))"
    by (simp add: enroll_def prisma_defs enrollment_create_def course_update_def tutor_update_def
        student_update_def enrollment_findUnique_def published_course_def demo_defs Let_def)
  have st: "student_findUnique ''u1'' (snd (enroll demo_env ''u1'' ''c1'' demo_db)) =
       Some (demo_student\<lparr>st_totalCoursesEnrolled := 2\<rparr>)"
    by (simp add: enroll_def prisma_defs enrollment_create_def course_update_def tutor_update_def
        student_update_def enrollment_findUnique_def published_course_def student_findUnique_def
        demo_defs Let_def)
  show ?thesis
    using h ev st enroll_outcomes [of "''c1''" demo_db demo_env "''u1''"]
      enroll_outcomes [of "''c9''" demo_db demo_env "''u1''"] a
      enroll_outcomes [of "''c2''" demo_db demo_env "''u1''"] b
      enroll_outcomes [of "''c2''" demo_db demo_env "''u7''"] c p
    by simp
qed

lemma await_Inr:
  "await m f d = (Inr b, d') \<Longrightarrow> \<exists>a d1. m d = (Inr a, d1) \<and> f a d1 = (Inr b, d')"
  by (auto simp: await_def split: prod.splits sum.splits)

lemma transaction_Inl: "transaction m d = (Inl x, d') \<Longrightarrow> d' = d"
  by (auto simp: transaction_def split: prod.splits sum.splits)

lemma transaction_Inr: "transaction m d = (Inr a, d') \<Longrightarrow> m d = (Inr a, d')"
  by (auto simp: transaction_def split: prod.splits sum.splits)

lemma course_update_Inr:
  "course_update en courseId f d = (Inr c, d') \<Longrightarrow>
     \<not> rejects en CourseUpdate \<and>
     (\<exists>cs. update_unique (\<lambda>c. c_id c = courseId) f (courses d) = Some (c, cs) \<and> d' = d\<lparr>courses := cs\<rparr>)"
  by (auto simp: course_update_def statement_def split: if_splits option.splits sum.splits prod.splits)

lemma tutor_update_Inr:
  "tutor_update en tutorId f d = (Inr t, d') \<Longrightarrow>
     \<not> rejects en TutorUpdate \<and>
     (\<exists>ts. update_unique (\<lambda>t. t_id t = tutorId) f (tutors d) = Some (t, ts) \<and> d' = d\<lparr>tutors := ts\<rparr>)"
  by (auto simp: tutor_update_def statement_def split: if_splits option.splits sum.splits prod.splits)

lemma student_update_Inr:
  "student_update en userId f d = (Inr s, d') \<Longrightarrow>
     \<not> rejects en StudentUpdate \<and>
     (\<exists>ss. update_unique (\<lambda>s. st_userId s = userId) f (students d) = Some (s, ss)
        \<and> d' = d\<lparr>students := ss\<rparr>)"
  by (auto simp: student_update_def statement_def split: if_splits option.splits sum.splits prod.splits)

lemma enrollment_delete_Inr:
  "enrollment_delete en enrollmentId d = (Inr e, d') \<Longrightarrow>
     \<not> rejects en EnrollmentDelete \<and>
     (\<exists>es. delete_unique (\<lambda>e. e_id e = enrollmentId) (enrollments d) = Some (e, es)
        \<and> d' = d\<lparr>enrollments := es\<rparr>)"
  by (auto simp: enrollment_delete_def statement_def split: if_splits option.splits sum.splits prod.splits)

lemma progress_deleteMany_Inr:
  "progress_deleteMany en enrollmentId d = (Inr u, d') \<Longrightarrow>
     \<not> rejects en ProgressDeleteMany \<and>
     d' = d\<lparr>progresses := filter (\<lambda>p. p_enrollmentId p \<noteq> enrollmentId) (progresses d)\<rparr>"
  by (auto simp: progress_deleteMany_def statement_def split: if_splits)

lemma unenroll_writes_Inr:
  assumes "unenroll_writes en studentId courseId e d = (Inr u, d')"
  shows "progresses d' = filter (\<lambda>p. p_enrollmentId p \<noteq> e_id e) (progresses d)
     \<and> (\<exists>as x bs. enrollments d = as @ x # bs \<and> enrollments d' = as @ bs \<and> e_id x = e_id e
            \<and> (\<forall>a\<in>set as. e_id a \<noteq> e_id e))
     \<and> (\<exists>c. course_findUnique courseId d = Some c \<and>
            course_findUnique courseId d' = Some (c\<lparr>c_totalEnrollments := c_totalEnrollments c - 1\<rparr>))
     \<and> (\<exists>s. student_findUnique studentId d = Some s \<and>
            student_findUnique studentId d' =
              Some (s\<lparr>st_totalCoursesEnrolled := st_totalCoursesEnrolled s - 1\<rparr>))"
proof -
  from assms obtain u1 d1 where
    s1: "progress_deleteMany en (e_id e) d = (Inr u1, d1)" and
    r1: "await (enrollment_delete en (e_id e)) (\<lambda>_.
           await (course_update en courseId
              (\<lambda>c. c\<lparr>c_totalEnrollments := c_totalEnrollments c - 1\<rparr>)) (\<lambda>_.
           await (student_update en studentId
              (\<lambda>s. s\<lparr>st_totalCoursesEnrolled := st_totalCoursesEnrolled s - 1\<rparr>)) (\<lambda>_.
           ret ()))) d1 = (Inr u, d')"
    unfolding unenroll_writes_def by (blast dest: await_Inr)
  from r1 obtain x d2 where
    s2: "enrollment_delete en (e_id e) d1 = (Inr x, d2)" and
    r2: "await (course_update en courseId
              (\<lambda>c. c\<lparr>c_totalEnrollments := c_totalEnrollments c - 1\<rparr>)) (\<lambda>_.
           await (student_update en studentId
              (\<lambda>s. s\<lparr>st_totalCoursesEnrolled := st_totalCoursesEnrolled s - 1\<rparr>)) (\<lambda>_.
           ret ())) d2 = (Inr u, d')"
    by (blast dest: await_Inr)
  from r2 obtain c' d3 where
    s3: "course_update en courseId
              (\<lambda>c. c\<lparr>c_totalEnrollments := c_totalEnrollments c - 1\<rparr>) d2 = (Inr c', d3)" and
    r3: "await (student_update en studentId
              (\<lambda>s. s\<lparr>st_totalCoursesEnrolled := st_totalCoursesEnrolled s - 1\<rparr>)) (\<lambda>_.
           ret ()) d3 = (Inr u, d')"
    by (blast dest: await_Inr)
  from r3 obtain s' d4 where
    s4: "student_update en studentId
              (\<lambda>s. s\<lparr>st_totalCoursesEnrolled := st_totalCoursesEnrolled s - 1\<rparr>) d3 = (Inr s', d4)" and
    r4: "ret () d4 = (Inr u, d')"
    by (blast dest: await_Inr)
  from r4 have d4: "d4 = d'" by (simp add: ret_def)
  from progress_deleteMany_Inr [OF s1]
  have d1: "d1 = d\<lparr>progresses := filter (\<lambda>p. p_enrollmentId p \<noteq> e_id e) (progresses d)\<rparr>"
    by simp
  from enrollment_delete_Inr [OF s2] obtain es where
    es: "delete_unique (\<lambda>a. e_id a = e_id e) (enrollments d1) = Some (x, es)"
    and d2: "d2 = d1\<lparr>enrollments := es\<rparr>" by blast
  from course_update_Inr [OF s3] obtain cs where
    cs: "update_unique (\<lambda>c. c_id c = courseId)
           (\<lambda>c. c\<lparr>c_totalEnrollments := c_totalEnrollments c - 1\<rparr>) (courses d2) = Some (c', cs)"
    and d3: "d3 = d2\<lparr>courses := cs\<rparr>" by blast
  from student_update_Inr [OF s4] obtain ss where
    ss: "update_unique (\<lambda>s. st_userId s = studentId)
           (\<lambda>s. s\<lparr>st_totalCoursesEnrolled := st_totalCoursesEnrolled s - 1\<rparr>) (students d3) = Some (s', ss)"
    and d4': "d4 = d3\<lparr>students := ss\<rparr>" by blast
  have d': "d' = d\<lparr>progresses := filter (\<lambda>p. p_enrollmentId p \<noteq> e_id e) (progresses d),
                    enrollments := es, courses := cs, students := ss\<rparr>"
    using d1 d2 d3 d4 d4' by simp
  have p: "progresses d' = filter (\<lambda>p. p_enrollmentId p \<noteq> e_id e) (progresses d)"
    by (simp add: d')
  from delete_unique_split [OF es]
  have e: "\<exists>as x bs. enrollments d = as @ x # bs \<and> enrollments d' = as @ bs \<and> e_id x = e_id e
            \<and> (\<forall>a\<in>set as. e_id a \<noteq> e_id e)"
    by (simp add: d' d1) blast
  from update_unique_result [OF cs]
  have c: "\<exists>c. course_findUnique courseId d = Some c \<and>
            course_findUnique courseId d' = Some (c\<lparr>c_totalEnrollments := c_totalEnrollments c - 1\<rparr>)"
    by (simp add: course_findUnique_def d' d2 d1) blast
  from update_unique_result [OF ss]
  have s: "\<exists>s. student_findUnique studentId d = Some s \<and>
            student_findUnique studentId d' =
              Some (s\<lparr>st_totalCoursesEnrolled := st_totalCoursesEnrolled s - 1\<rparr>)"
    by (simp add: student_findUnique_def d' d3 d2 d1) blast
  from p e c s show ?thesis by blast
qed


lemma find_Some_set: "find P xs = Some x \<Longrightarrow> x \<in> set xs \<and> P x"
  by (induction xs) (auto split: if_splits)

lemma unenroll_writes_runs:
  assumes "\<forall>w. \<not> rejects en w"
    and "find (\<lambda>x. e_id x = e_id e) (enrollments d) = Some x"
    and "course_findUnique courseId d = Some c"
    and "student_findUnique studentId d = Some s"
  shows "\<exists>d'. unenroll_writes en studentId courseId e d = (Inr (), d')"
proof -
  from delete_unique_hit [OF assms(2)] obtain es where
    "delete_unique (\<lambda>x. e_id x = e_id e) (enrollments d) = Some (x, es)" by blast
  moreover from update_unique_hit [OF assms(3) [unfolded course_findUnique_def]] obtain cs where
    "update_unique (\<lambda>c. c_id c = courseId)
       (\<lambda>c. c\<lparr>c_totalEnrollments := c_totalEnrollments c - 1\<rparr>) (courses d)
     = Some (c\<lparr>c_totalEnrollments := c_totalEnrollments c - 1\<rparr>, cs)" by blast
  moreover from update_unique_hit [OF assms(4) [unfolded student_findUnique_def]] obtain ss where
    "update_unique (\<lambda>s. st_userId s = studentId)
       (\<lambda>s. s\<lparr>st_totalCoursesEnrolled := st_totalCoursesEnrolled s - 1\<rparr>) (students d)
     = Some (s\<lparr>st_totalCoursesEnrolled := st_totalCoursesEnrolled s - 1\<rparr>, ss)" by blast
  ultimately show ?thesis
    using assms(1)
    by (simp add: unenroll_writes_def await_def ret_def statement_def progress_deleteMany_def
        enrollment_delete_def course_update_def student_update_def)
qed

text \<open>
  C9. Unenrolling from an enrollment whose status is COMPLETED is answered with 400 and
  leaves the database as it was. For any other enrollment the four writes run in one
  transaction: either the request ends in an error with the database unchanged, or it
  answers 200 and all four have taken effect (the enrollment's progress records are gone,
  the enrollment row is gone, and the course's totalEnrollments and the student's
  totalCoursesEnrolled are one lower). When the database accepts the writes and holds the
  course and student rows, the second case is the one that happens.
\<close>

theorem unenroll_completed_or_atomic:
  "(\<forall>e. enrollment_findUnique studentId courseId d = Some e \<and> e_status e = ''COMPLETED'' \<longrightarrow>
      unenroll en studentId courseId d =
        (Response 400 ''Cannot unenroll from completed course'' NoData, d))
   \<and> (\<forall>e. enrollment_findUnique studentId courseId d = Some e \<and> e_status e \<noteq> ''COMPLETED'' \<longrightarrow>
        (\<exists>x. unenroll en studentId courseId d = (NextError x, d))
        \<or> (\<exists>d'. unenroll en studentId courseId d =
                   (Response 200 ''Successfully unenrolled from course'' NoData, d')
             \<and> progresses d' = filter (\<lambda>p. p_enrollmentId p \<noteq> e_id e) (progresses d)
             \<and> (\<exists>as x bs. enrollments d = as @ x # bs \<and> enrollments d' = as @ bs
                    \<and> e_id x = e_id e \<and> (\<forall>a\<in>set as. e_id a \<noteq> e_id e))
             \<and> (\<exists>c. course_findUnique courseId d = Some c \<and>
                    course_findUnique courseId d' =
                      Some (c\<lparr>c_totalEnrollments := c_totalEnrollments c - 1\<rparr>))
             \<and> (\<exists>s. student_findUnique studentId d = Some s \<and>
                    student_findUnique studentId d' =
                      Some (s\<lparr>st_totalCoursesEnrolled := st_totalCoursesEnrolled s - 1\<rparr>))))
   \<and> (\<forall>e c s. enrollment_findUnique studentId courseId d = Some e \<and> e_status e \<noteq> ''COMPLETED''
          \<and> (\<forall>w. \<not> rejects en w) \<and> course_findUnique courseId d = Some c
          \<and> student_findUnique studentId d = Some s \<longrightarrow>
        fst (unenroll en studentId courseId d) =
          Response 200 ''Successfully unenrolled from course'' NoData)"
proof (intro conjI allI impI)
  fix e
  assume "enrollment_findUnique studentId courseId d = Some e \<and> e_status e = ''COMPLETED''"
  then show "unenroll en studentId courseId d =
        (Response 400 ''Cannot unenroll from completed course'' NoData, d)"
    by (simp add: unenroll_def prisma_defs)
next
  fix e
  assume h: "enrollment_findUnique studentId courseId d = Some e \<and> e_status e \<noteq> ''COMPLETED''"
  let ?t = "transaction (unenroll_writes en studentId courseId e) d"
  obtain r d1 where t: "?t = (r, d1)" by (cases ?t)
  show "(\<exists>x. unenroll en studentId courseId d = (NextError x, d))
        \<or> (\<exists>d'. unenroll en studentId courseId d =
                   (Response 200 ''Successfully unenrolled from course'' NoData, d')
             \<and> progresses d' = filter (\<lambda>p. p_enrollmentId p \<noteq> e_id e) (progresses d)
             \<and> (\<exists>as x bs. enrollments d = as @ x # bs \<and> enrollments d' = as @ bs
                    \<and> e_id x = e_id e \<and> (\<forall>a\<in>set as. e_id a \<noteq> e_id e))
             \<and> (\<exists>c. course_findUnique courseId d = Some c \<and>
                    course_findUnique courseId d' =
                      Some (c\<lparr>c_totalEnrollments := c_totalEnrollments c - 1\<rparr>))
             \<and> (\<exists>s. student_findUnique studentId d = Some s \<and>
                    student_findUnique studentId d' =
                      Some (s\<lparr>st_totalCoursesEnrolled := st_totalCoursesEnrolled s - 1\<rparr>)))"
  proof (cases r)
    case (Inl x)
    with t have "d1 = d" by (auto dest: transaction_Inl)
    with t Inl h have "unenroll en studentId courseId d = (NextError x, d)"
      by (simp add: unenroll_def try_next_def await_def query_def)
    then show ?thesis by blast
  next
    case (Inr u)
    with t have w: "unenroll_writes en studentId courseId e d = (Inr u, d1)"
      by (auto dest: transaction_Inr)
    from t Inr h have "unenroll en studentId courseId d =
        (Response 200 ''Successfully unenrolled from course'' NoData, d1)"
      by (simp add: unenroll_def try_next_def await_def query_def ret_def)
    with unenroll_writes_Inr [OF w] show ?thesis by blast
  qed
next
  fix e c s
  assume h: "enrollment_findUnique studentId courseId d = Some e \<and> e_status e \<noteq> ''COMPLETED''
          \<and> (\<forall>w. \<not> rejects en w) \<and> course_findUnique courseId d = Some c
          \<and> student_findUnique studentId d = Some s"
  then have "find (\<lambda>x. e_studentId x = studentId \<and> e_courseId x = courseId) (enrollments d) = Some e"
    by (simp add: enrollment_findUnique_def)
  then have "e \<in> set (enrollments d)"
    by (simp add: find_Some_set)
  then obtain x where "find (\<lambda>x. e_id x = e_id e) (enrollments d) = Some x"
    by (cases "find (\<lambda>x. e_id x = e_id e) (enrollments d)") (auto simp: find_None_iff)
  with h unenroll_writes_runs [of en e d x courseId c studentId s]
  obtain d' where "unenroll_writes en studentId courseId e d = (Inr (), d')" by blast
  with h show "fst (unenroll en studentId courseId d) =
          Response 200 ''Successfully unenrolled from course'' NoData"
    by (simp add: unenroll_def try_next_def await_def query_def ret_def transaction_def)
qed


theorem unenroll_completed_or_atomic_witness:
  "enrollment_findUnique ''u1'' ''c2'' (demo_db\<lparr>enrollments := [demo_enrollment\<lparr>e_status := ''COMPLETED''\<rparr>]\<rparr>)
     = Some (demo_enrollment\<lparr>e_status := ''COMPLETED''\<rparr>)
   \<and> e_status (demo_enrollment\<lparr>e_status := ''COMPLETED''\<rparr>) = ''COMPLETED''
   \<and> unenroll demo_env ''u1'' ''c2'' (demo_db\<lparr>enrollments := [demo_enrollment\<lparr>e_status := ''COMPLETED''\<rparr>]\<rparr>)
     = (Response 400 ''Cannot unenroll from completed course'' NoData,
        demo_db\<lparr>enrollments := [demo_enrollment\<lparr>e_status := ''COMPLETED''\<rparr>]\<rparr>)
   \<and> enrollment_findUnique ''u1'' ''c2'' demo_db = Some demo_enrollment
   \<and> e_status demo_enrollment \<noteq> ''COMPLETED''
   \<and> (\<forall>w. \<not> rejects demo_env w)
   \<and> course_findUnique ''c2'' demo_db = Some demo_paid
   \<and> student_findUnique ''u1'' demo_db = Some demo_student
   \<and> fst (unenroll demo_env ''u1'' ''c2'' demo_db) =
        Response 200 ''Successfully unenrolled from course'' NoData"
proof -
  have a: "enrollment_findUnique ''u1'' ''c2''
        (demo_db\<lparr>enrollments := [demo_enrollment\<lparr>e_status := ''COMPLETED''\<rparr>]\<rparr>)
      = Some (demo_enrollment\<lparr>e_status := ''COMPLETED''\<rparr>)
     \<and> e_status (demo_enrollment\<lparr>e_status := ''COMPLETED''\<rparr>) = ''COMPLETED''"
    by (simp add: enrollment_findUnique_def demo_defs)
  have b: "enrollment_findUnique ''u1'' ''c2'' demo_db = Some demo_enrollment
     \<and> e_status demo_enrollment \<noteq> ''COMPLETED''
     \<and> (\<forall>w. \<not> rejects demo_env w)
     \<and> course_findUnique ''c2'' demo_db = Some demo_paid
     \<and> student_findUnique ''u1'' demo_db = Some demo_student"
    by (simp add: enrollment_findUnique_def course_findUnique_def student_findUnique_def demo_defs)
  show ?thesis
    using a b
      unenroll_completed_or_atomic [of "''u1''" "''c2''"
        "demo_db\<lparr>enrollments := [demo_enrollment\<lparr>e_status := ''COMPLETED''\<rparr>]\<rparr>" demo_env]
      unenroll_completed_or_atomic [of "''u1''" "''c2''" demo_db demo_env]
    by simp
qed

lemma try_next_await:
  "try_next (await m g) d =
     (case m d of (Inl x, d1) \<Rightarrow> (NextError x, d1) | (Inr a, d1) \<Rightarrow> try_next (g a) d1)"
  by (simp add: try_next_def await_def split: prod.splits sum.splits)

lemma try_next_ret: "try_next (ret r) d = (r, d)"
  by (simp add: try_next_def ret_def)

lemmas run_defs = try_next_await try_next_ret query_def eval_def Let_def

lemma progress_upsert_Inr:
  "progress_upsert en studentId lessonId upd crt d = (Inr p, d1) \<Longrightarrow>
     \<not> rejects en ProgressUpsert \<and> (\<exists>ps. d1 = d\<lparr>progresses := ps\<rparr>)"
  by (auto simp: progress_upsert_def statement_def split: if_splits option.splits)

lemma enrollment_update_Inr:
  "enrollment_update en studentId courseId f d = (Inr e, d') \<Longrightarrow>
     \<not> rejects en EnrollmentUpdate \<and>
     (\<exists>es. update_unique (\<lambda>e. e_studentId e = studentId \<and> e_courseId e = courseId) f (enrollments d)
              = Some (e, es) \<and> d' = d\<lparr>enrollments := es\<rparr>)"
  by (auto simp: enrollment_update_def statement_def split: if_splits option.splits)

lemma certificate_create_Inr:
  "certificate_create en c d = (Inr c', d') \<Longrightarrow>
     \<not> rejects en CertificateCreate \<and> c' = c \<and> d' = d\<lparr>certificates := certificates d @ [c]\<rparr>"
  by (auto simp: certificate_create_def statement_def split: if_splits)

lemma update_progress_200D:
  assumes run: "update_progress en studentId courseId lessonId body d =
                  (Response 200 msg (ProgressData p cp e'), d')"
    and enr: "enrollment_findUnique studentId courseId d = Some e"
  shows "\<exists>upd d1 es.
      progress_update_data body = Inr upd
    \<and> progress_upsert en studentId lessonId upd
         (progress_create_data en studentId lessonId e body) d = (Inr p, d1)
    \<and> cp = courseProgress (completedLessons studentId courseId d1) (totalLessons courseId d1)
    \<and> update_unique (\<lambda>x. e_studentId x = studentId \<and> e_courseId x = courseId)
         (\<lambda>x. if cp = 100 \<and> e_status e \<noteq> ''COMPLETED''
              then x\<lparr>e_progress := cp, e_lastAccessedAt := Some (now en),
                     e_status := ''COMPLETED'', e_completedAt := Some (now en)\<rparr>
              else x\<lparr>e_progress := cp, e_lastAccessedAt := Some (now en)\<rparr>)
         (enrollments d1) = Some (e', es)
    \<and> (if cp = 100 \<and> e_status e \<noteq> ''COMPLETED''
        then \<exists>s ss. update_unique (\<lambda>s. st_userId s = studentId)
                 (\<lambda>s. s\<lparr>st_totalCoursesCompleted := st_totalCoursesCompleted s + 1\<rparr>)
                 (students d1) = Some (s, ss)
             \<and> d' = d1\<lparr>enrollments := es, students := ss,
                  certificates := certificates d1 @
                    [\<lparr>ct_studentId = studentId, ct_courseId = courseId,
                      ct_enrollmentId = e_id e, ct_certificateNumber = certificateNumber en\<rparr>]\<rparr>
        else d' = d1\<lparr>enrollments := es\<rparr>)"
proof -
  from run enr obtain l where l: "lesson_findFirst lessonId courseId d = Some l"
    by (cases "lesson_findFirst lessonId courseId d") (auto simp: update_progress_def run_defs)
  from run enr l obtain upd where upd: "progress_update_data body = Inr upd"
    by (cases "progress_update_data body") (auto simp: update_progress_def run_defs)
  let ?ups = "progress_upsert en studentId lessonId upd
         (progress_create_data en studentId lessonId e body) d"
  obtain r1 d1 where ups0: "?ups = (r1, d1)" by (cases ?ups)
  with run enr l upd obtain p1 where r1: "r1 = Inr p1"
    by (cases r1) (auto simp: update_progress_def run_defs)
  note ups = ups0 [unfolded r1]
  define c where "c = courseProgress (completedLessons studentId courseId d1) (totalLessons courseId d1)"
  define f :: "enrollment \<Rightarrow> enrollment" where "f = (\<lambda>x. if c = 100 \<and> e_status e \<noteq> ''COMPLETED''
              then x\<lparr>e_progress := c, e_lastAccessedAt := Some (now en),
                     e_status := ''COMPLETED'', e_completedAt := Some (now en)\<rparr>
              else x\<lparr>e_progress := c, e_lastAccessedAt := Some (now en)\<rparr>)"
  let ?eu = "enrollment_update en studentId courseId f d1"
  obtain r2 d2 where eu0: "?eu = (r2, d2)" by (cases ?eu)
  with run enr l upd ups obtain ue where r2: "r2 = Inr ue"
    by (cases r2; cases "c = 100 \<and> e_status e \<noteq> ''COMPLETED''")
       (auto simp: update_progress_def run_defs c_def f_def)
  note eu = eu0 [unfolded r2]
  from enrollment_update_Inr [OF eu] obtain es where
    es: "update_unique (\<lambda>x. e_studentId x = studentId \<and> e_courseId x = courseId) f (enrollments d1)
          = Some (ue, es)" and d2: "d2 = d1\<lparr>enrollments := es\<rparr>" by blast
  show ?thesis
  proof (cases "c = 100 \<and> e_status e \<noteq> ''COMPLETED''")
    case False
    with run enr l upd ups eu have "p1 = p \<and> c = cp \<and> ue = e' \<and> d2 = d'"
      by (auto simp: update_progress_def run_defs c_def f_def)
    with False upd ups es d2 show ?thesis
      unfolding c_def f_def by (intro exI [of _ upd] exI [of _ d1] exI [of _ es]) auto
  next
    case True
    let ?su = "student_update en studentId
                (\<lambda>s. s\<lparr>st_totalCoursesCompleted := st_totalCoursesCompleted s + 1\<rparr>) d2"
    let ?cert = "\<lparr>ct_studentId = studentId, ct_courseId = courseId,
                 ct_enrollmentId = e_id e, ct_certificateNumber = certificateNumber en\<rparr>"
    obtain r3 d3 where su0: "?su = (r3, d3)" by (cases ?su)
    with run enr l upd ups eu True obtain s where r3: "r3 = Inr s"
      by (cases r3) (auto simp: update_progress_def run_defs c_def f_def)
    note su = su0 [unfolded r3]
    obtain r4 d4 where cc0: "certificate_create en ?cert d3 = (r4, d4)"
      by (cases "certificate_create en ?cert d3")
    with run enr l upd ups eu True su obtain ct where r4: "r4 = Inr ct"
      by (cases r4) (auto simp: update_progress_def run_defs c_def f_def)
    note cc = cc0 [unfolded r4]
    from run enr l upd ups eu True su cc have eqs: "p1 = p \<and> c = cp \<and> ue = e' \<and> d4 = d'"
      by (auto simp: update_progress_def run_defs c_def f_def)
    from student_update_Inr [OF su] obtain ss where
      ss: "update_unique (\<lambda>s. st_userId s = studentId)
             (\<lambda>s. s\<lparr>st_totalCoursesCompleted := st_totalCoursesCompleted s + 1\<rparr>) (students d2)
           = Some (s, ss)" and d3: "d3 = d2\<lparr>students := ss\<rparr>" by blast
    from certificate_create_Inr [OF cc]
    have d4: "d4 = d3\<lparr>certificates := certificates d3 @ [?cert]\<rparr>" by simp
    from True upd ups es d2 ss d3 d4 eqs show ?thesis
      unfolding c_def f_def by (intro exI [of _ upd] exI [of _ d1] exI [of _ es]) auto
  qed
qed

lemma progress_upsert_frame:
  "progress_upsert en studentId lessonId upd crt d = (Inr p, d1) \<Longrightarrow>
     enrollments d1 = enrollments d \<and> students d1 = students d \<and> certificates d1 = certificates d"
  by (auto dest: progress_upsert_Inr)

lemma update_unique_found:
  "update_unique P f xs = Some (y, ys) \<Longrightarrow> \<exists>x. find P xs = Some x \<and> y = f x"
  by (induction xs arbitrary: ys) (auto split: if_splits)

lemma update_unique_find_after:
  "update_unique P f xs = Some (y, ys) \<Longrightarrow> P y \<Longrightarrow> find P ys = Some y"
  by (induction xs arbitrary: ys) (auto split: if_splits)

text \<open>
  C3. Take a lesson-progress update that is answered 200 with course progress \<open>cp\<close>, on an
  enrollment \<open>e\<close>. The stored progress of the enrollment is \<open>cp\<close>. When \<open>cp\<close> is exactly
  100 and \<open>e\<close> was not COMPLETED, the enrollment is now COMPLETED with the request's clock
  reading as completion time, the student's totalCoursesCompleted is one higher, and
  exactly one certificate, for this enrollment, has been appended. In every other case
  the enrollment's status and completion time, the student rows and the certificates are
  what they were.
\<close>

theorem update_progress_completion:
  assumes "update_progress en studentId courseId lessonId body d =
             (Response 200 msg (ProgressData p cp e'), d')"
    and "enrollment_findUnique studentId courseId d = Some e"
  shows "enrollment_findUnique studentId courseId d' = Some e' \<and> e_progress e' = cp
     \<and> (cp = 100 \<and> e_status e \<noteq> ''COMPLETED'' \<longrightarrow>
           e_status e' = ''COMPLETED'' \<and> e_completedAt e' = Some (now en)
         \<and> (\<exists>s. student_findUnique studentId d = Some s
                \<and> student_findUnique studentId d' =
                    Some (s\<lparr>st_totalCoursesCompleted := st_totalCoursesCompleted s + 1\<rparr>))
         \<and> (\<exists>c. certificates d' = certificates d @ [c] \<and> ct_enrollmentId c = e_id e
                \<and> ct_studentId c = studentId \<and> ct_courseId c = courseId))
     \<and> (\<not> (cp = 100 \<and> e_status e \<noteq> ''COMPLETED'') \<longrightarrow>
           e_status e' = e_status e \<and> e_completedAt e' = e_completedAt e
         \<and> students d' = students d \<and> certificates d' = certificates d)"
proof -
  let ?P = "\<lambda>x. e_studentId x = studentId \<and> e_courseId x = courseId"
  let ?f = "\<lambda>x. if cp = 100 \<and> e_status e \<noteq> ''COMPLETED''
              then x\<lparr>e_progress := cp, e_lastAccessedAt := Some (now en),
                     e_status := ''COMPLETED'', e_completedAt := Some (now en)\<rparr>
              else x\<lparr>e_progress := cp, e_lastAccessedAt := Some (now en)\<rparr>"
  from update_progress_200D [OF assms] show ?thesis
  proof (elim exE conjE)
  fix upd d1 es
  assume ups: "progress_upsert en studentId lessonId upd
         (progress_create_data en studentId lessonId e body) d = (Inr p, d1)"
    and es: "update_unique ?P ?f (enrollments d1) = Some (e', es)"
    and fin: "if cp = 100 \<and> e_status e \<noteq> ''COMPLETED''
        then \<exists>s ss. update_unique (\<lambda>s. st_userId s = studentId)
                 (\<lambda>s. s\<lparr>st_totalCoursesCompleted := st_totalCoursesCompleted s + 1\<rparr>)
                 (students d1) = Some (s, ss)
             \<and> d' = d1\<lparr>enrollments := es, students := ss,
                  certificates := certificates d1 @
                    [\<lparr>ct_studentId = studentId, ct_courseId = courseId,
                      ct_enrollmentId = e_id e, ct_certificateNumber = certificateNumber en\<rparr>]\<rparr>
        else d' = d1\<lparr>enrollments := es\<rparr>"
  note fr = progress_upsert_frame [OF ups]
  have "\<exists>x. find ?P (enrollments d1) = Some x \<and> e' = ?f x"
    by (rule update_unique_found [OF es])
  with assms(2) fr have e': "e' = ?f e"
    by (simp add: enrollment_findUnique_def)
  from find_Some_set [OF assms(2) [unfolded enrollment_findUnique_def]] have "?P e"
    by simp
  with e' have Pe: "?P e'" by simp
  have fe: "find ?P es = Some e'"
    by (rule update_unique_find_after [OF es Pe])
  have en': "enrollments d' = es"
    using fin by (auto split: if_splits)
  have 1: "enrollment_findUnique studentId courseId d' = Some e' \<and> e_progress e' = cp"
    using fe en' e' by (simp add: enrollment_findUnique_def)
  have 2: "e_status e' = ''COMPLETED'' \<and> e_completedAt e' = Some (now en)
         \<and> (\<exists>s. student_findUnique studentId d = Some s
                \<and> student_findUnique studentId d' =
                    Some (s\<lparr>st_totalCoursesCompleted := st_totalCoursesCompleted s + 1\<rparr>))
         \<and> (\<exists>c. certificates d' = certificates d @ [c] \<and> ct_enrollmentId c = e_id e
                \<and> ct_studentId c = studentId \<and> ct_courseId c = courseId)"
    if c: "cp = 100 \<and> e_status e \<noteq> ''COMPLETED''"
  proof -
    from fin c obtain s ss where
      ss: "update_unique (\<lambda>s. st_userId s = studentId)
                 (\<lambda>s. s\<lparr>st_totalCoursesCompleted := st_totalCoursesCompleted s + 1\<rparr>)
                 (students d1) = Some (s, ss)"
      and d': "d' = d1\<lparr>enrollments := es, students := ss,
                  certificates := certificates d1 @
                    [\<lparr>ct_studentId = studentId, ct_courseId = courseId,
                      ct_enrollmentId = e_id e, ct_certificateNumber = certificateNumber en\<rparr>]\<rparr>"
      by auto
    let ?g = "\<lambda>s. s\<lparr>st_totalCoursesCompleted := st_totalCoursesCompleted s + 1\<rparr>"
    from update_unique_found [OF ss] fr obtain s0 where
      s0: "find (\<lambda>s. st_userId s = studentId) (students d) = Some s0" and s: "s = ?g s0"
      by auto
    from find_Some_set [OF s0] have "st_userId s0 = studentId" by simp
    with s have "st_userId s = studentId" by simp
    from update_unique_find_after [OF ss this] s0 s
    have "\<exists>s. student_findUnique studentId d = Some s
                \<and> student_findUnique studentId d' =
                    Some (s\<lparr>st_totalCoursesCompleted := st_totalCoursesCompleted s + 1\<rparr>)"
      by (simp add: student_findUnique_def d')
    moreover have "\<exists>c. certificates d' = certificates d @ [c] \<and> ct_enrollmentId c = e_id e
                \<and> ct_studentId c = studentId \<and> ct_courseId c = courseId"
      using fr by (simp add: d')
    ultimately show ?thesis using c e' by simp
  qed
  have 3: "e_status e' = e_status e \<and> e_completedAt e' = e_completedAt e
         \<and> students d' = students d \<and> certificates d' = certificates d"
    if c: "\<not> (cp = 100 \<and> e_status e \<noteq> ''COMPLETED'')"
  proof -
    from fin c have "d' = d1\<lparr>enrollments := es\<rparr>" by (simp split: if_splits)
    then show ?thesis using c e' fr by auto
  qed
  show ?thesis using 1 2 3 by simp
  qed
qed

lemmas demo_learning_defs = demo_learning_db_def demo_retired_db_def demo_section_def
  demo_lesson_def demo_progress_def demo_body_def

lemmas update_progress_defs = update_progress_def run_defs progress_update_data_def
  progress_create_data_def progress_upsert_def enrollment_update_def student_update_def
  certificate_create_def statement_def totalLessons_def completedLessons_def
  courseProgress_def lesson_findFirst_def lesson_of_course_def enrollment_findUnique_def
  truthy_num_def truthy_bool_def

lemma demo_learning_run:
  "update_progress demo_env ''u1'' ''c2'' ''l1'' demo_body demo_learning_db =
     (Response 200 ''Progress updated successfully''
        (ProgressData (demo_progress\<lparr>p_timeSpent := 30\<rparr>) 100
           (demo_enrollment\<lparr>e_progress := 100, e_lastAccessedAt := Some 1000,
              e_status := ''COMPLETED'', e_completedAt := Some 1000\<rparr>)),
      demo_learning_db\<lparr>
        progresses := [demo_progress\<lparr>p_timeSpent := 30\<rparr>],
        enrollments := [demo_enrollment\<lparr>e_progress := 100, e_lastAccessedAt := Some 1000,
              e_status := ''COMPLETED'', e_completedAt := Some 1000\<rparr>],
        students := [demo_student\<lparr>st_totalCoursesCompleted := 1\<rparr>],
        certificates := [\<lparr>ct_studentId = ''u1'', ct_courseId = ''c2'', ct_enrollmentId = ''e1'',
                          ct_certificateNumber = ''CERT-1000-AB12CD''\<rparr>]\<rparr>)"
  by (simp add: update_progress_defs demo_learning_defs demo_defs)

theorem update_progress_completion_witness:
  "update_progress demo_env ''u1'' ''c2'' ''l1'' demo_body demo_learning_db =
     (Response 200 ''Progress updated successfully''
        (ProgressData (demo_progress\<lparr>p_timeSpent := 30\<rparr>) 100
           (demo_enrollment\<lparr>e_progress := 100, e_lastAccessedAt := Some 1000,
              e_status := ''COMPLETED'', e_completedAt := Some 1000\<rparr>)),
      snd (update_progress demo_env ''u1'' ''c2'' ''l1'' demo_body demo_learning_db))
   \<and> enrollment_findUnique ''u1'' ''c2'' demo_learning_db = Some demo_enrollment
   \<and> e_status demo_enrollment \<noteq> ''COMPLETED''
   \<and> (\<exists>s. student_findUnique ''u1'' demo_learning_db = Some s
          \<and> student_findUnique ''u1''
               (snd (update_progress demo_env ''u1'' ''c2'' ''l1'' demo_body demo_learning_db)) =
              Some (s\<lparr>st_totalCoursesCompleted := st_totalCoursesCompleted s + 1\<rparr>))
   \<and> (\<exists>c. certificates
               (snd (update_progress demo_env ''u1'' ''c2'' ''l1'' demo_body demo_learning_db)) =
              certificates demo_learning_db @ [c] \<and> ct_enrollmentId c = e_id demo_enrollment
          \<and> ct_studentId c = ''u1'' \<and> ct_courseId c = ''c2'')"
proof -
  have r: "update_progress demo_env ''u1'' ''c2'' ''l1'' demo_body demo_learning_db =
     (Response 200 ''Progress updated successfully''
        (ProgressData (demo_progress\<lparr>p_timeSpent := 30\<rparr>) 100
           (demo_enrollment\<lparr>e_progress := 100, e_lastAccessedAt := Some 1000,
              e_status := ''COMPLETED'', e_completedAt := Some 1000\<rparr>)),
      snd (update_progress demo_env ''u1'' ''c2'' ''l1'' demo_body demo_learning_db))"
    by (simp add: demo_learning_run)
  have e: "enrollment_findUnique ''u1'' ''c2'' demo_learning_db = Some demo_enrollment"
    by (simp add: enrollment_findUnique_def demo_learning_defs demo_defs)
  have s: "e_status demo_enrollment \<noteq> ''COMPLETED''"
    by (simp add: demo_defs)
  show ?thesis
    using update_progress_completion [OF r e] r e s by simp
qed

lemma update_progress_isCompleted_raises:
  assumes "enrollment_findUnique studentId courseId d = Some e"
    and "lesson_findFirst lessonId courseId d = Some l"
    and "isCompleted body = Some True"
  shows "update_progress en studentId courseId lessonId body d =
           (NextError (ReferenceError ''progress''), d)"
  using assms
  by (simp add: update_progress_def run_defs progress_update_data_def truthy_bool_def)

text \<open>
  C4. The claim is that building the upsert arguments never raises. It does: on the demo
  course, a request that marks the lesson completed ends in a ReferenceError before any
  statement reaches the database, so the database is what it was.
\<close>

theorem update_progress_isCompleted_fails:
  "update_progress demo_env ''u1'' ''c2'' ''l1''
     \<lparr>timeSpent = Some 30, lastPosition = None, isCompleted = Some True\<rparr> demo_learning_db =
   (NextError (ReferenceError ''progress''), demo_learning_db)"
proof -
  have "enrollment_findUnique ''u1'' ''c2'' demo_learning_db = Some demo_enrollment"
    by (simp add: enrollment_findUnique_def demo_learning_defs demo_defs)
  moreover have "lesson_findFirst ''l1'' ''c2'' demo_learning_db = Some demo_lesson"
    by (simp add: lesson_findFirst_def lesson_of_course_def demo_learning_defs demo_defs)
  ultimately show ?thesis
    by (rule update_progress_isCompleted_raises) simp
qed

text \<open>
  C1. The claim is that the stored progress is completed / total * 100 with both counts
  over the same lessons. On a course with one active lesson and one deactivated lesson,
  both completed by the student, the handler counts one lesson in total and two completed
  ones, and stores a progress of 200.
\<close>

theorem update_progress_counts_differ:
  "totalLessons ''c2'' demo_retired_db = 1
   \<and> completedLessons ''u1'' ''c2'' demo_retired_db = 2
   \<and> fst (update_progress demo_env ''u1'' ''c2'' ''l1'' demo_body demo_retired_db) =
       Response 200 ''Progress updated successfully''
         (ProgressData (demo_progress\<lparr>p_timeSpent := 30\<rparr>) 200
            (demo_enrollment\<lparr>e_progress := 200, e_lastAccessedAt := Some 1000\<rparr>))
   \<and> map_option e_progress (enrollment_findUnique ''u1'' ''c2''
        (snd (update_progress demo_env ''u1'' ''c2'' ''l1'' demo_body demo_retired_db))) = Some 200"
  by (simp add: update_progress_defs demo_learning_defs demo_defs)

text \<open>
  C2. The claim is that the writes of the lesson-progress update are atomic. They are
  issued one by one without a transaction: when the database rejects the certificate
  insert, the request ends in that error, yet the progress record, the enrollment (now
  COMPLETED) and the student's counter have been written and no certificate exists.
\<close>

theorem update_progress_not_atomic:
  "update_progress (demo_env\<lparr>rejects := (\<lambda>s. s = CertificateCreate)\<rparr>)
     ''u1'' ''c2'' ''l1'' demo_body demo_learning_db =
   (NextError (Rejected CertificateCreate),
    demo_learning_db\<lparr>
      progresses := [demo_progress\<lparr>p_timeSpent := 30\<rparr>],
      enrollments := [demo_enrollment\<lparr>e_progress := 100, e_lastAccessedAt := Some 1000,
            e_status := ''COMPLETED'', e_completedAt := Some 1000\<rparr>],
      students := [demo_student\<lparr>st_totalCoursesCompleted := 1\<rparr>]\<rparr>)
   \<and> certificates demo_learning_db = []
   \<and> enrollments demo_learning_db = [demo_enrollment]
   \<and> e_status demo_enrollment = ''ACTIVE''"
  by (simp add: update_progress_defs demo_learning_defs demo_defs)

lemma payment_update_Inr:
  "payment_update en stripePaymentId f d = (Inr p, d') \<Longrightarrow>
     \<not> rejects en PaymentUpdate \<and>
     (\<exists>ps. update_unique (\<lambda>p. pay_stripePaymentId p = stripePaymentId) f (payments d) = Some (p, ps)
        \<and> d' = d\<lparr>payments := ps\<rparr>)"
  by (auto simp: payment_update_def statement_def split: if_splits option.splits)

lemma enrollment_create_Inr:
  "enrollment_create en studentId courseId d = (Inr e, d') \<Longrightarrow>
     \<not> rejects en EnrollmentCreate \<and> enrollment_findUnique studentId courseId d = None
     \<and> e = \<lparr>e_id = newId en, e_studentId = studentId, e_courseId = courseId,
              e_status = ''ACTIVE'', e_progress = 0, e_enrolledAt = now en,
              e_lastAccessedAt = None, e_completedAt = None\<rparr>
     \<and> d' = d\<lparr>enrollments := enrollments d @ [e]\<rparr>"
  by (auto simp: enrollment_create_def statement_def Let_def split: if_splits option.splits)

lemma paymentSuccess_writes_Inr:
  assumes "paymentSuccess_writes en intent d = (Inr u, d')"
  shows "(\<exists>pa p pb ca c cb ta t tb sa s sb.
          payments d = pa @ p # pb \<and> pay_stripePaymentId p = pi_id intent
        \<and> (\<forall>x\<in>set pa. pay_stripePaymentId x \<noteq> pi_id intent)
        \<and> courses d = ca @ c # cb \<and> c_id c = pi_courseId intent
        \<and> (\<forall>x\<in>set ca. c_id x \<noteq> pi_courseId intent)
        \<and> tutors d = ta @ t # tb \<and> t_id t = pi_tutorId intent
        \<and> (\<forall>x\<in>set ta. t_id x \<noteq> pi_tutorId intent)
        \<and> students d = sa @ s # sb \<and> st_userId s = pi_studentId intent
        \<and> (\<forall>x\<in>set sa. st_userId x \<noteq> pi_studentId intent)
        \<and> d' = d\<lparr>
              payments := pa @ p\<lparr>pay_status := ''COMPLETED'', pay_paidAt := Some (now en)\<rparr> # pb,
              enrollments := enrollments d @
                [\<lparr>e_id = newId en, e_studentId = pi_studentId intent,
                  e_courseId = pi_courseId intent, e_status = ''ACTIVE'', e_progress = 0,
                  e_enrolledAt = now en, e_lastAccessedAt = None, e_completedAt = None\<rparr>],
              courses := ca @ c\<lparr>c_totalEnrollments := c_totalEnrollments c + 1,
                  c_totalRevenue := c_totalRevenue c + of_int (pi_amount intent) / 100\<rparr> # cb,
              tutors := ta @ t\<lparr>t_totalStudents := t_totalStudents t + 1,
                  t_totalEarnings :=
                    t_totalEarnings t + of_int (pi_amount intent) / 100 * (85 / 100)\<rparr> # tb,
              students := sa @ s\<lparr>st_totalCoursesEnrolled := st_totalCoursesEnrolled s + 1\<rparr> # sb\<rparr>)
     \<and> (\<exists>p. payment_findUnique (pi_id intent) d = Some p \<and>
            payment_findUnique (pi_id intent) d' =
              Some (p\<lparr>pay_status := ''COMPLETED'', pay_paidAt := Some (now en)\<rparr>))
     \<and> (\<exists>c. course_findUnique (pi_courseId intent) d = Some c \<and>
            course_findUnique (pi_courseId intent) d' =
              Some (c\<lparr>c_totalEnrollments := c_totalEnrollments c + 1,
                      c_totalRevenue := c_totalRevenue c + of_int (pi_amount intent) / 100\<rparr>))
     \<and> (\<exists>t. tutor_findUnique (pi_tutorId intent) d = Some t \<and>
            tutor_findUnique (pi_tutorId intent) d' =
              Some (t\<lparr>t_totalStudents := t_totalStudents t + 1,
                      t_totalEarnings := t_totalEarnings t + of_int (pi_amount intent) / 100 * (85 / 100)\<rparr>))
     \<and> (\<exists>s. student_findUnique (pi_studentId intent) d = Some s \<and>
            student_findUnique (pi_studentId intent) d' =
              Some (s\<lparr>st_totalCoursesEnrolled := st_totalCoursesEnrolled s + 1\<rparr>))"
proof -
  let ?fp = "\<lambda>p. p\<lparr>pay_status := ''COMPLETED'', pay_paidAt := Some (now en)\<rparr>"
  let ?fc = "\<lambda>c. c\<lparr>c_totalEnrollments := c_totalEnrollments c + 1,
                     c_totalRevenue := c_totalRevenue c + of_int (pi_amount intent) / 100\<rparr>"
  let ?ft = "\<lambda>t. t\<lparr>t_totalStudents := t_totalStudents t + 1,
                     t_totalEarnings := t_totalEarnings t + of_int (pi_amount intent) / 100 * (85 / 100)\<rparr>"
  let ?fs = "\<lambda>s. s\<lparr>st_totalCoursesEnrolled := st_totalCoursesEnrolled s + 1\<rparr>"
  obtain r1 d1 where s1: "payment_update en (pi_id intent) ?fp d = (r1, d1)"
    by (cases "payment_update en (pi_id intent) ?fp d")
  with assms obtain p' where r1: "r1 = Inr p'"
    by (cases r1) (auto simp: paymentSuccess_writes_def await_def)
  obtain r2 d2 where s2: "enrollment_create en (pi_studentId intent) (pi_courseId intent) d1 = (r2, d2)"
    by (cases "enrollment_create en (pi_studentId intent) (pi_courseId intent) d1")
  with assms s1 r1 obtain e where r2: "r2 = Inr e"
    by (cases r2) (auto simp: paymentSuccess_writes_def await_def)
  obtain r3 d3 where s3: "course_update en (pi_courseId intent) ?fc d2 = (r3, d3)"
    by (cases "course_update en (pi_courseId intent) ?fc d2")
  with assms s1 r1 s2 r2 obtain c' where r3: "r3 = Inr c'"
    by (cases r3) (auto simp: paymentSuccess_writes_def await_def)
  obtain r4 d4 where s4: "tutor_update en (pi_tutorId intent) ?ft d3 = (r4, d4)"
    by (cases "tutor_update en (pi_tutorId intent) ?ft d3")
  with assms s1 r1 s2 r2 s3 r3 obtain t' where r4: "r4 = Inr t'"
    by (cases r4) (auto simp: paymentSuccess_writes_def await_def)
  obtain r5 d5 where s5: "student_update en (pi_studentId intent) ?fs d4 = (r5, d5)"
    by (cases "student_update en (pi_studentId intent) ?fs d4")
  with assms s1 r1 s2 r2 s3 r3 s4 r4 obtain s' where r5: "r5 = Inr s'"
    by (cases r5) (auto simp: paymentSuccess_writes_def await_def)
  from assms s1 r1 s2 r2 s3 r3 s4 r4 s5 r5 have d5: "d5 = d'"
    by (simp add: paymentSuccess_writes_def await_def ret_def)
  from payment_update_Inr [OF s1 [unfolded r1]] obtain ps where
    ps: "update_unique (\<lambda>p. pay_stripePaymentId p = pi_id intent) ?fp (payments d) = Some (p', ps)"
    and d1: "d1 = d\<lparr>payments := ps\<rparr>" by blast
  from enrollment_create_Inr [OF s2 [unfolded r2]]
  have e: "e_studentId e = pi_studentId intent \<and> e_courseId e = pi_courseId intent \<and> e_status e = ''ACTIVE''"
    and d2: "d2 = d1\<lparr>enrollments := enrollments d1 @ [e]\<rparr>" by simp_all
  from course_update_Inr [OF s3 [unfolded r3]] obtain cs where
    cs: "update_unique (\<lambda>c. c_id c = pi_courseId intent) ?fc (courses d2) = Some (c', cs)"
    and d3: "d3 = d2\<lparr>courses := cs\<rparr>" by blast
  from tutor_update_Inr [OF s4 [unfolded r4]] obtain ts where
    ts: "update_unique (\<lambda>t. t_id t = pi_tutorId intent) ?ft (tutors d3) = Some (t', ts)"
    and d4: "d4 = d3\<lparr>tutors := ts\<rparr>" by blast
  from student_update_Inr [OF s5 [unfolded r5]] obtain ss where
    ss: "update_unique (\<lambda>s. st_userId s = pi_studentId intent) ?fs (students d4) = Some (s', ss)"
    and d5': "d5 = d4\<lparr>students := ss\<rparr>" by blast
  have d': "d' = d\<lparr>payments := ps, enrollments := enrollments d @ [e],
                courses := cs, tutors := ts, students := ss\<rparr>"
    using d1 d2 d3 d4 d5 d5' by simp
  from enrollment_create_Inr [OF s2 [unfolded r2]]
  have e': "e = \<lparr>e_id = newId en, e_studentId = pi_studentId intent,
                  e_courseId = pi_courseId intent, e_status = ''ACTIVE'', e_progress = 0,
                  e_enrolledAt = now en, e_lastAccessedAt = None, e_completedAt = None\<rparr>"
    by simp
  from update_unique_split [OF ps] obtain pa p pb where
    pa: "payments d = pa @ p # pb" "ps = pa @ ?fp p # pb" "pay_stripePaymentId p = pi_id intent"
      "\<forall>x\<in>set pa. pay_stripePaymentId x \<noteq> pi_id intent"
    by (elim exE conjE)
  from cs d2 d1 have cs0: "update_unique (\<lambda>c. c_id c = pi_courseId intent) ?fc (courses d) = Some (c', cs)"
    by simp
  from update_unique_split [OF cs0] obtain ca c cb where
    ca: "courses d = ca @ c # cb" "cs = ca @ ?fc c # cb" "c_id c = pi_courseId intent"
      "\<forall>x\<in>set ca. c_id x \<noteq> pi_courseId intent"
    by (elim exE conjE)
  from ts d3 d2 d1 have ts0: "update_unique (\<lambda>t. t_id t = pi_tutorId intent) ?ft (tutors d) = Some (t', ts)"
    by simp
  from update_unique_split [OF ts0] obtain ta t tb where
    ta: "tutors d = ta @ t # tb" "ts = ta @ ?ft t # tb" "t_id t = pi_tutorId intent"
      "\<forall>x\<in>set ta. t_id x \<noteq> pi_tutorId intent"
    by (elim exE conjE)
  from ss d4 d3 d2 d1 have ss0: "update_unique (\<lambda>s. st_userId s = pi_studentId intent) ?fs (students d)
      = Some (s', ss)"
    by simp
  from update_unique_split [OF ss0] obtain sa s sb where
    sa: "students d = sa @ s # sb" "ss = sa @ ?fs s # sb" "st_userId s = pi_studentId intent"
      "\<forall>x\<in>set sa. st_userId x \<noteq> pi_studentId intent"
    by (elim exE conjE)
  have dx: "d' = d\<lparr>payments := pa @ ?fp p # pb,
              enrollments := enrollments d @
                [\<lparr>e_id = newId en, e_studentId = pi_studentId intent,
                  e_courseId = pi_courseId intent, e_status = ''ACTIVE'', e_progress = 0,
                  e_enrolledAt = now en, e_lastAccessedAt = None, e_completedAt = None\<rparr>],
              courses := ca @ ?fc c # cb, tutors := ta @ ?ft t # tb,
              students := sa @ ?fs s # sb\<rparr>"
    using d' e' pa(2) ca(2) ta(2) sa(2) by simp
  have A: "\<exists>pa p pb ca c cb ta t tb sa s sb.
          payments d = pa @ p # pb \<and> pay_stripePaymentId p = pi_id intent
        \<and> (\<forall>x\<in>set pa. pay_stripePaymentId x \<noteq> pi_id intent)
        \<and> courses d = ca @ c # cb \<and> c_id c = pi_courseId intent
        \<and> (\<forall>x\<in>set ca. c_id x \<noteq> pi_courseId intent)
        \<and> tutors d = ta @ t # tb \<and> t_id t = pi_tutorId intent
        \<and> (\<forall>x\<in>set ta. t_id x \<noteq> pi_tutorId intent)
        \<and> students d = sa @ s # sb \<and> st_userId s = pi_studentId intent
        \<and> (\<forall>x\<in>set sa. st_userId x \<noteq> pi_studentId intent)
        \<and> d' = d\<lparr>
              payments := pa @ p\<lparr>pay_status := ''COMPLETED'', pay_paidAt := Some (now en)\<rparr> # pb,
              enrollments := enrollments d @
                [\<lparr>e_id = newId en, e_studentId = pi_studentId intent,
                  e_courseId = pi_courseId intent, e_status = ''ACTIVE'', e_progress = 0,
                  e_enrolledAt = now en, e_lastAccessedAt = None, e_completedAt = None\<rparr>],
              courses := ca @ c\<lparr>c_totalEnrollments := c_totalEnrollments c + 1,
                  c_totalRevenue := c_totalRevenue c + of_int (pi_amount intent) / 100\<rparr> # cb,
              tutors := ta @ t\<lparr>t_totalStudents := t_totalStudents t + 1,
                  t_totalEarnings :=
                    t_totalEarnings t + of_int (pi_amount intent) / 100 * (85 / 100)\<rparr> # tb,
              students := sa @ s\<lparr>st_totalCoursesEnrolled := st_totalCoursesEnrolled s + 1\<rparr> # sb\<rparr>"
    using pa(1,3,4) ca(1,3,4) ta(1,3,4) sa(1,3,4) dx
    by (intro exI [of _ pa] exI [of _ p] exI [of _ pb] exI [of _ ca] exI [of _ c] exI [of _ cb]
        exI [of _ ta] exI [of _ t] exI [of _ tb] exI [of _ sa] exI [of _ s] exI [of _ sb] conjI)
  from update_unique_result [OF ps]
  have B: "\<exists>p. payment_findUnique (pi_id intent) d = Some p \<and>
            payment_findUnique (pi_id intent) d' = Some (?fp p)"
    by (simp add: payment_findUnique_def d') blast
  from update_unique_result [OF cs]
  have C: "\<exists>c. course_findUnique (pi_courseId intent) d = Some c \<and>
            course_findUnique (pi_courseId intent) d' = Some (?fc c)"
    by (simp add: course_findUnique_def d' d2 d1) blast
  from update_unique_result [OF ts]
  have D: "\<exists>t. tutor_findUnique (pi_tutorId intent) d = Some t \<and>
            tutor_findUnique (pi_tutorId intent) d' = Some (?ft t)"
    by (simp add: tutor_findUnique_def d' d3 d2 d1) blast
  from update_unique_result [OF ss]
  have E: "\<exists>s. student_findUnique (pi_studentId intent) d = Some s \<and>
            student_findUnique (pi_studentId intent) d' = Some (?fs s)"
    by (simp add: student_findUnique_def d' d4 d3 d2 d1) blast
  show ?thesis
    by (intro conjI) (rule A, rule B, rule C, rule D, rule E)
qed

lemma paymentSuccess_writes_runs:
  assumes "\<forall>w. \<not> rejects en w"
    and "payment_findUnique (pi_id intent) d = Some p"
    and "enrollment_findUnique (pi_studentId intent) (pi_courseId intent) d = None"
    and "course_findUnique (pi_courseId intent) d = Some c"
    and "tutor_findUnique (pi_tutorId intent) d = Some t"
    and "student_findUnique (pi_studentId intent) d = Some s"
  shows "\<exists>d'. paymentSuccess_writes en intent d = (Inr (), d')"
proof -
  from update_unique_hit [OF assms(2) [unfolded payment_findUnique_def]] obtain ps where
    "update_unique (\<lambda>p. pay_stripePaymentId p = pi_id intent)
       (\<lambda>p. p\<lparr>pay_status := ''COMPLETED'', pay_paidAt := Some (now en)\<rparr>) (payments d)
     = Some (p\<lparr>pay_status := ''COMPLETED'', pay_paidAt := Some (now en)\<rparr>, ps)" by blast
  moreover from update_unique_hit [OF assms(4) [unfolded course_findUnique_def]] obtain cs where
    "update_unique (\<lambda>c. c_id c = pi_courseId intent)
       (\<lambda>c. c\<lparr>c_totalEnrollments := c_totalEnrollments c + 1,
              c_totalRevenue := c_totalRevenue c + of_int (pi_amount intent) / 100\<rparr>) (courses d)
     = Some (c\<lparr>c_totalEnrollments := c_totalEnrollments c + 1,
              c_totalRevenue := c_totalRevenue c + of_int (pi_amount intent) / 100\<rparr>, cs)" by blast
  moreover from update_unique_hit [OF assms(5) [unfolded tutor_findUnique_def]] obtain ts where
    "update_unique (\<lambda>t. t_id t = pi_tutorId intent)
       (\<lambda>t. t\<lparr>t_totalStudents := t_totalStudents t + 1,
              t_totalEarnings := t_totalEarnings t + of_int (pi_amount intent) / 100 * (85 / 100)\<rparr>)
       (tutors d)
     = Some (t\<lparr>t_totalStudents := t_totalStudents t + 1,
              t_totalEarnings := t_totalEarnings t + of_int (pi_amount intent) / 100 * (85 / 100)\<rparr>, ts)"
    by blast
  moreover from update_unique_hit [OF assms(6) [unfolded student_findUnique_def]] obtain ss where
    "update_unique (\<lambda>s. st_userId s = pi_studentId intent)
       (\<lambda>s. s\<lparr>st_totalCoursesEnrolled := st_totalCoursesEnrolled s + 1\<rparr>) (students d)
     = Some (s\<lparr>st_totalCoursesEnrolled := st_totalCoursesEnrolled s + 1\<rparr>, ss)" by blast
  ultimately show ?thesis
    using assms(1) assms(3)
    by (simp add: paymentSuccess_writes_def await_def ret_def statement_def payment_update_def
        enrollment_create_def course_update_def tutor_update_def student_update_def
        enrollment_findUnique_def Let_def)
qed

text \<open>
  C5. The webhook answers a payment_intent.succeeded event with 200 and leaves the database
  as the success helper leaves it. The helper runs its five writes in one transaction.
  When it logs an error the database is unchanged. When it logs none, the database is the
  old one with exactly five rows written and nothing else touched: the first payment row
  with the intent's id is COMPLETED with the clock reading as paidAt, one ACTIVE enrollment
  for the student and course of the metadata is appended, the first course row with that
  id has one more enrollment and amount / 100 more revenue, the first tutor row with that
  id one more student and 85 percent of amount / 100 more earnings, and the first student
  row of that user one more enrolled course; every other row of the five tables and every
  other table is as before. When the database accepts the
  writes, holds the four rows and has no such enrollment yet, no error is logged.
\<close>

theorem payment_succeeded_all_or_nothing:
  "webhook en (Inr (PaymentIntentSucceeded intent)) d =
     (Response 200 ''received'' NoData, snd (handlePaymentSuccess en intent d))
   \<and> (\<forall>x d'. handlePaymentSuccess en intent d = (Some x, d') \<longrightarrow> d' = d)
   \<and> (\<forall>d'. handlePaymentSuccess en intent d = (None, d') \<longrightarrow>
        (\<exists>pa p pb ca c cb ta t tb sa s sb.
          payments d = pa @ p # pb \<and> pay_stripePaymentId p = pi_id intent
        \<and> (\<forall>x\<in>set pa. pay_stripePaymentId x \<noteq> pi_id intent)
        \<and> courses d = ca @ c # cb \<and> c_id c = pi_courseId intent
        \<and> (\<forall>x\<in>set ca. c_id x \<noteq> pi_courseId intent)
        \<and> tutors d = ta @ t # tb \<and> t_id t = pi_tutorId intent
        \<and> (\<forall>x\<in>set ta. t_id x \<noteq> pi_tutorId intent)
        \<and> students d = sa @ s # sb \<and> st_userId s = pi_studentId intent
        \<and> (\<forall>x\<in>set sa. st_userId x \<noteq> pi_studentId intent)
        \<and> d' = d\<lparr>
              payments := pa @ p\<lparr>pay_status := ''COMPLETED'', pay_paidAt := Some (now en)\<rparr> # pb,
              enrollments := enrollments d @
                [\<lparr>e_id = newId en, e_studentId = pi_studentId intent,
                  e_courseId = pi_courseId intent, e_status = ''ACTIVE'', e_progress = 0,
                  e_enrolledAt = now en, e_lastAccessedAt = None, e_completedAt = None\<rparr>],
              courses := ca @ c\<lparr>c_totalEnrollments := c_totalEnrollments c + 1,
                  c_totalRevenue := c_totalRevenue c + of_int (pi_amount intent) / 100\<rparr> # cb,
              tutors := ta @ t\<lparr>t_totalStudents := t_totalStudents t + 1,
                  t_totalEarnings :=
                    t_totalEarnings t + of_int (pi_amount intent) / 100 * (85 / 100)\<rparr> # tb,
              students := sa @ s\<lparr>st_totalCoursesEnrolled := st_totalCoursesEnrolled s + 1\<rparr> # sb\<rparr>)
      \<and> (\<exists>p. payment_findUnique (pi_id intent) d = Some p \<and>
            payment_findUnique (pi_id intent) d' =
              Some (p\<lparr>pay_status := ''COMPLETED'', pay_paidAt := Some (now en)\<rparr>))
      \<and> (\<exists>c. course_findUnique (pi_courseId intent) d = Some c \<and>
            course_findUnique (pi_courseId intent) d' =
              Some (c\<lparr>c_totalEnrollments := c_totalEnrollments c + 1,
                      c_totalRevenue := c_totalRevenue c + of_int (pi_amount intent) / 100\<rparr>))
      \<and> (\<exists>t. tutor_findUnique (pi_tutorId intent) d = Some t \<and>
            tutor_findUnique (pi_tutorId intent) d' =
              Some (t\<lparr>t_totalStudents := t_totalStudents t + 1,
                      t_totalEarnings :=
                        t_totalEarnings t + of_int (pi_amount intent) / 100 * (85 / 100)\<rparr>))
      \<and> (\<exists>s. student_findUnique (pi_studentId intent) d = Some s \<and>
            student_findUnique (pi_studentId intent) d' =
              Some (s\<lparr>st_totalCoursesEnrolled := st_totalCoursesEnrolled s + 1\<rparr>)))
   \<and> (\<forall>p c t s. (\<forall>w. \<not> rejects en w)
          \<and> payment_findUnique (pi_id intent) d = Some p
          \<and> enrollment_findUnique (pi_studentId intent) (pi_courseId intent) d = None
          \<and> course_findUnique (pi_courseId intent) d = Some c
          \<and> tutor_findUnique (pi_tutorId intent) d = Some t
          \<and> student_findUnique (pi_studentId intent) d = Some s \<longrightarrow>
        fst (handlePaymentSuccess en intent d) = None)"
proof (intro conjI allI impI)
  show "webhook en (Inr (PaymentIntentSucceeded intent)) d =
     (Response 200 ''received'' NoData, snd (handlePaymentSuccess en intent d))"
    by (simp add: webhook_def)
next
  fix x d'
  assume "handlePaymentSuccess en intent d = (Some x, d')"
  then show "d' = d"
    by (auto simp: handlePaymentSuccess_def transaction_def split: prod.splits sum.splits)
next
  fix d'
  assume "handlePaymentSuccess en intent d = (None, d')"
  then have w: "paymentSuccess_writes en intent d = (Inr (), d')"
    by (auto simp: handlePaymentSuccess_def transaction_def split: prod.splits sum.splits)
  note r = paymentSuccess_writes_Inr [OF w]
  from r show "\<exists>pa p pb ca c cb ta t tb sa s sb.
          payments d = pa @ p # pb \<and> pay_stripePaymentId p = pi_id intent
        \<and> (\<forall>x\<in>set pa. pay_stripePaymentId x \<noteq> pi_id intent)
        \<and> courses d = ca @ c # cb \<and> c_id c = pi_courseId intent
        \<and> (\<forall>x\<in>set ca. c_id x \<noteq> pi_courseId intent)
        \<and> tutors d = ta @ t # tb \<and> t_id t = pi_tutorId intent
        \<and> (\<forall>x\<in>set ta. t_id x \<noteq> pi_tutorId intent)
        \<and> students d = sa @ s # sb \<and> st_userId s = pi_studentId intent
        \<and> (\<forall>x\<in>set sa. st_userId x \<noteq> pi_studentId intent)
        \<and> d' = d\<lparr>
              payments := pa @ p\<lparr>pay_status := ''COMPLETED'', pay_paidAt := Some (now en)\<rparr> # pb,
              enrollments := enrollments d @
                [\<lparr>e_id = newId en, e_studentId = pi_studentId intent,
                  e_courseId = pi_courseId intent, e_status = ''ACTIVE'', e_progress = 0,
                  e_enrolledAt = now en, e_lastAccessedAt = None, e_completedAt = None\<rparr>],
              courses := ca @ c\<lparr>c_totalEnrollments := c_totalEnrollments c + 1,
                  c_totalRevenue := c_totalRevenue c + of_int (pi_amount intent) / 100\<rparr> # cb,
              tutors := ta @ t\<lparr>t_totalStudents := t_totalStudents t + 1,
                  t_totalEarnings :=
                    t_totalEarnings t + of_int (pi_amount intent) / 100 * (85 / 100)\<rparr> # tb,
              students := sa @ s\<lparr>st_totalCoursesEnrolled := st_totalCoursesEnrolled s + 1\<rparr> # sb\<rparr>"
    by (rule conjunct1)
  from r show "\<exists>p. payment_findUnique (pi_id intent) d = Some p \<and>
            payment_findUnique (pi_id intent) d' =
              Some (p\<lparr>pay_status := ''COMPLETED'', pay_paidAt := Some (now en)\<rparr>)"
    by (elim conjE)
  from r show "\<exists>c. course_findUnique (pi_courseId intent) d = Some c \<and>
            course_findUnique (pi_courseId intent) d' =
              Some (c\<lparr>c_totalEnrollments := c_totalEnrollments c + 1,
                      c_totalRevenue := c_totalRevenue c + of_int (pi_amount intent) / 100\<rparr>)"
    by (elim conjE)
  from r show "\<exists>t. tutor_findUnique (pi_tutorId intent) d = Some t \<and>
            tutor_findUnique (pi_tutorId intent) d' =
              Some (t\<lparr>t_totalStudents := t_totalStudents t + 1,
                      t_totalEarnings :=
                        t_totalEarnings t + of_int (pi_amount intent) / 100 * (85 / 100)\<rparr>)"
    by (elim conjE)
  from r show "\<exists>s. student_findUnique (pi_studentId intent) d = Some s \<and>
            student_findUnique (pi_studentId intent) d' =
              Some (s\<lparr>st_totalCoursesEnrolled := st_totalCoursesEnrolled s + 1\<rparr>)"
    by (elim conjE)
next
  fix p c t s
  assume h: "(\<forall>w. \<not> rejects en w)
          \<and> payment_findUnique (pi_id intent) d = Some p
          \<and> enrollment_findUnique (pi_studentId intent) (pi_courseId intent) d = None
          \<and> course_findUnique (pi_courseId intent) d = Some c
          \<and> tutor_findUnique (pi_tutorId intent) d = Some t
          \<and> student_findUnique (pi_studentId intent) d = Some s"
  have "\<exists>d'. paymentSuccess_writes en intent d = (Inr (), d')"
    by (rule paymentSuccess_writes_runs [of en intent d p c t s]) (simp_all add: h)
  then show "fst (handlePaymentSuccess en intent d) = None"
    by (auto simp: handlePaymentSuccess_def transaction_def)
qed

lemmas payment_defs = handlePaymentSuccess_def transaction_def paymentSuccess_writes_def
  await_def ret_def statement_def payment_update_def enrollment_create_def course_update_def
  tutor_update_def student_update_def enrollment_findUnique_def Let_def

lemmas demo_paying_defs = demo_paying_db_def demo_payment_def demo_intent_def

theorem payment_succeeded_all_or_nothing_witness:
  "(\<forall>w. \<not> rejects demo_env w)
   \<and> payment_findUnique (pi_id demo_intent) demo_paying_db = Some demo_payment
   \<and> enrollment_findUnique (pi_studentId demo_intent) (pi_courseId demo_intent) demo_paying_db = None
   \<and> course_findUnique (pi_courseId demo_intent) demo_paying_db = Some demo_paid
   \<and> tutor_findUnique (pi_tutorId demo_intent) demo_paying_db = Some demo_tutor
   \<and> student_findUnique (pi_studentId demo_intent) demo_paying_db = Some demo_student
   \<and> fst (handlePaymentSuccess demo_env demo_intent demo_paying_db) = None
   \<and> snd (handlePaymentSuccess demo_env demo_intent demo_paying_db) =
        demo_paying_db\<lparr>
          payments := [demo_payment\<lparr>pay_status := ''COMPLETED'', pay_paidAt := Some 1000\<rparr>],
          enrollments := [\<lparr>e_id = ''e9'', e_studentId = ''u1'', e_courseId = ''c2'',
             e_status = ''ACTIVE'', e_progress = 0, e_enrolledAt = 1000,
             e_lastAccessedAt = None, e_completedAt = None\<rparr>],
          courses := [demo_free, demo_paid\<lparr>c_totalEnrollments := 2, c_totalRevenue := 50\<rparr>],
          tutors := [demo_tutor\<lparr>t_totalStudents := 2, t_totalEarnings := 85 / 2\<rparr>],
          students := [demo_student\<lparr>st_totalCoursesEnrolled := 2\<rparr>]\<rparr>
   \<and> tutor_findUnique ''t1'' (snd (handlePaymentSuccess demo_env demo_intent demo_paying_db)) =
        Some (demo_tutor\<lparr>t_totalStudents := 2, t_totalEarnings := 85 / 2\<rparr>)
   \<and> handlePaymentSuccess (demo_env\<lparr>rejects := (\<lambda>s. s = StudentUpdate)\<rparr>) demo_intent
        demo_paying_db = (Some (Rejected StudentUpdate), demo_paying_db)"
proof -
  have h: "(\<forall>w. \<not> rejects demo_env w)
     \<and> payment_findUnique (pi_id demo_intent) demo_paying_db = Some demo_payment
     \<and> enrollment_findUnique (pi_studentId demo_intent) (pi_courseId demo_intent) demo_paying_db
         = None
     \<and> course_findUnique (pi_courseId demo_intent) demo_paying_db = Some demo_paid
     \<and> tutor_findUnique (pi_tutorId demo_intent) demo_paying_db = Some demo_tutor
     \<and> student_findUnique (pi_studentId demo_intent) demo_paying_db = Some demo_student"
    by (simp add: payment_findUnique_def enrollment_findUnique_def course_findUnique_def
        tutor_findUnique_def student_findUnique_def demo_paying_defs demo_defs)
  have t: "tutor_findUnique ''t1'' (snd (handlePaymentSuccess demo_env demo_intent demo_paying_db)) =
        Some (demo_tutor\<lparr>t_totalStudents := 2, t_totalEarnings := 85 / 2\<rparr>)"
    by (simp add: payment_defs tutor_findUnique_def demo_paying_defs demo_defs)
  have x: "snd (handlePaymentSuccess demo_env demo_intent demo_paying_db) =
        demo_paying_db\<lparr>
          payments := [demo_payment\<lparr>pay_status := ''COMPLETED'', pay_paidAt := Some 1000\<rparr>],
          enrollments := [\<lparr>e_id = ''e9'', e_studentId = ''u1'', e_courseId = ''c2'',
             e_status = ''ACTIVE'', e_progress = 0, e_enrolledAt = 1000,
             e_lastAccessedAt = None, e_completedAt = None\<rparr>],
          courses := [demo_free, demo_paid\<lparr>c_totalEnrollments := 2, c_totalRevenue := 50\<rparr>],
          tutors := [demo_tutor\<lparr>t_totalStudents := 2, t_totalEarnings := 85 / 2\<rparr>],
          students := [demo_student\<lparr>st_totalCoursesEnrolled := 2\<rparr>]\<rparr>"
    by (simp add: payment_defs demo_paying_defs demo_defs)
  have f: "handlePaymentSuccess (demo_env\<lparr>rejects := (\<lambda>s. s = StudentUpdate)\<rparr>) demo_intent
        demo_paying_db = (Some (Rejected StudentUpdate),
          snd (handlePaymentSuccess (demo_env\<lparr>rejects := (\<lambda>s. s = StudentUpdate)\<rparr>) demo_intent
             demo_paying_db))"
    by (simp add: payment_defs demo_paying_defs demo_defs)
  note T1 = payment_succeeded_all_or_nothing [of demo_env demo_intent demo_paying_db]
  note T2 = payment_succeeded_all_or_nothing
        [of "demo_env\<lparr>rejects := (\<lambda>s. s = StudentUpdate)\<rparr>" demo_intent demo_paying_db]
  from T1 have L: "\<forall>p c t s. (\<forall>w. \<not> rejects demo_env w)
          \<and> payment_findUnique (pi_id demo_intent) demo_paying_db = Some p
          \<and> enrollment_findUnique (pi_studentId demo_intent) (pi_courseId demo_intent) demo_paying_db
              = None
          \<and> course_findUnique (pi_courseId demo_intent) demo_paying_db = Some c
          \<and> tutor_findUnique (pi_tutorId demo_intent) demo_paying_db = Some t
          \<and> student_findUnique (pi_studentId demo_intent) demo_paying_db = Some s \<longrightarrow>
        fst (handlePaymentSuccess demo_env demo_intent demo_paying_db) = None"
    by (elim conjE)
  note n = L [rule_format, OF h]
  from T2 have M: "\<forall>x d'. handlePaymentSuccess (demo_env\<lparr>rejects := (\<lambda>s. s = StudentUpdate)\<rparr>)
        demo_intent demo_paying_db = (Some x, d') \<longrightarrow> d' = demo_paying_db"
    by (elim conjE)
  note u = M [rule_format, OF f]
  show ?thesis
    using h t n x f u by simp
qed

lemma authenticate_profile:
  assumes "authenticate jwt_verify authorization d = Inr u"
  shows "ru_studentProfile u = student_findUnique (u_id (ru_user u)) d"
proof -
  from assms obtain token userId usr where
    f: "find (\<lambda>x. u_id x = userId) (users d) = Some usr"
    and u: "u = \<lparr>ru_user = usr,
                        ru_roles = roleNames d userId,
                        ru_studentProfile = find (\<lambda>s. st_userId s = userId) (students d),
                        ru_tutorProfile = find (\<lambda>t. t_userId t = userId) (tutors d),
                        ru_adminProfile = find (\<lambda>a. a_userId a = userId) (admins d),
                        ru_permissions =
                          distinct_first (rolePermissionNames d userId @ userPermissionNames d userId)\<rparr>"
    by (auto simp: authenticate_def split: option.splits if_splits)
  from find_Some_set [OF f] have "u_id usr = userId" by simp
  with u show ?thesis by (simp add: student_findUnique_def)
qed

text \<open>
  C6. Each of the five enrollment routes runs \<open>auth\<close>, then \<open>isStudent\<close>, then its
  handler. When \<open>auth\<close> has accepted the request and the database holds no student
  profile for the authenticated user, the answer is 403 and the database is unchanged,
  whatever the route and whatever handler stands behind the two middlewares.
\<close>

theorem enrollment_routes_require_student:
  assumes "authenticate jwt_verify authorization d = Inr u"
    and "student_findUnique (u_id (ru_user u)) d = None"
  shows "enrollments_router jwt_verify en authorization request d =
           (Response 403 ''Student access required'' NoData, d)
     \<and> (\<forall>handler. student_route jwt_verify authorization handler d =
           (Response 403 ''Student access required'' NoData, d))"
proof -
  from authenticate_profile [OF assms(1)] assms(2) have "ru_studentProfile u = None" by simp
  with assms(1) have "student_route jwt_verify authorization handler d =
           (Response 403 ''Student access required'' NoData, d)" for handler
    by (simp add: student_route_def auth_def isStudent_def)
  then show ?thesis by (simp add: enrollments_router_def)
qed

lemmas demo_users_defs = demo_users_db_def demo_tutor_user_def demo_verify_def

theorem enrollment_routes_require_student_witness:
  "authenticate demo_verify (Some ''Bearer tok-u2'') demo_users_db =
     Inr \<lparr>ru_user = demo_tutor_user, ru_roles = [], ru_studentProfile = None,
          ru_tutorProfile = Some demo_tutor, ru_adminProfile = None, ru_permissions = []\<rparr>
   \<and> student_findUnique ''u2'' demo_users_db = None
   \<and> enrollments_router demo_verify demo_env (Some ''Bearer tok-u2'') (PostEnroll ''c1'')
        demo_users_db = (Response 403 ''Student access required'' NoData, demo_users_db)
   \<and> enrollments_router demo_verify demo_env (Some ''Bearer tok-u2'')
        (PutProgress ''c2'' ''l1'' demo_body) demo_users_db =
        (Response 403 ''Student access required'' NoData, demo_users_db)"
proof -
  have a: "authenticate demo_verify (Some ''Bearer tok-u2'') demo_users_db =
     Inr \<lparr>ru_user = demo_tutor_user, ru_roles = [], ru_studentProfile = None,
          ru_tutorProfile = Some demo_tutor, ru_adminProfile = None, ru_permissions = []\<rparr>"
    by (simp add: authenticate_def roleNames_def rolePermissionNames_def userPermissionNames_def
        distinct_first_def demo_users_defs demo_defs)
  have s: "student_findUnique
      (u_id (ru_user \<lparr>ru_user = demo_tutor_user, ru_roles = [], ru_studentProfile = None,
          ru_tutorProfile = Some demo_tutor, ru_adminProfile = None, ru_permissions = []\<rparr>))
      demo_users_db = None"
    by (simp add: student_findUnique_def demo_users_defs demo_defs)
  have s': "student_findUnique ''u2'' demo_users_db = None"
    by (simp add: student_findUnique_def demo_users_defs demo_defs)
  show ?thesis
    using a s' enrollment_routes_require_student [OF a s, of demo_env "PostEnroll ''c1''"]
      enrollment_routes_require_student [OF a s, of demo_env "PutProgress ''c2'' ''l1'' demo_body"]
    by simp
qed

lemma try_next_throw: "try_next (throw x) d = (NextError x, d)"
  by (simp add: try_next_def throw_def)

lemma or_zero_avg: "or_zero (review_avg courseId d) = mean_rating courseId d"
  by (simp add: or_zero_def review_avg_def mean_rating_def Let_def)

lemma review_create_Inr:
  "review_create en r d = (Inr r', d') \<Longrightarrow> r' = r \<and> d' = d\<lparr>reviews := reviews d @ [r]\<rparr>"
  by (auto simp: review_create_def statement_def split: if_splits option.splits)

lemma review_update_Inr:
  "review_update en studentId courseId f d = (Inr r, d') \<Longrightarrow>
     \<exists>rs. update_unique (\<lambda>r. r_studentId r = studentId \<and> r_courseId r = courseId) f (reviews d)
             = Some (r, rs) \<and> d' = d\<lparr>reviews := rs\<rparr>"
  by (auto simp: review_update_def statement_def split: if_splits option.splits)

lemma review_delete_Inr:
  "review_delete en studentId courseId d = (Inr r, d') \<Longrightarrow> \<exists>rs. d' = d\<lparr>reviews := rs\<rparr>"
  by (auto simp: review_delete_def statement_def split: if_splits option.splits)

text \<open>A course row just rewritten from the aggregates over the current reviews.\<close>

lemma stats_refreshed:
  assumes u: "update_unique (\<lambda>c. c_id c = courseId)
           (\<lambda>c. c\<lparr>c_averageRating := or_zero (review_avg courseId d1),
                  c_totalReviews := int (review_count courseId d1)\<rparr>) xs = Some (c', cs)"
    and c: "courses d' = cs" and r: "reviews d' = reviews d1"
  shows "review_stats_ok courseId d'"
proof -
  from update_unique_found [OF u] obtain x where
    x: "find (\<lambda>c. c_id c = courseId) xs = Some x"
    and c': "c' = x\<lparr>c_averageRating := or_zero (review_avg courseId d1),
                  c_totalReviews := int (review_count courseId d1)\<rparr>" by blast
  from find_Some_set [OF x] c' have "c_id c' = courseId" by simp
  from update_unique_find_after [OF u this] c
  have "course_findUnique courseId d' = Some c'" by (simp add: course_findUnique_def)
  moreover from r have "published_reviews courseId d' = published_reviews courseId d1"
    by (simp add: published_reviews_def)
  ultimately show ?thesis
    using c' by (simp add: review_stats_ok_def or_zero_avg mean_rating_def review_count_def)
qed

lemma create_review_201D:
  assumes run: "create_review en studentId courseId body d = (Response 201 msg pl, d')"
  shows "\<exists>d1 c' cs. update_unique (\<lambda>c. c_id c = courseId)
           (\<lambda>c. c\<lparr>c_averageRating := or_zero (review_avg courseId d1),
                  c_totalReviews := int (review_count courseId d1)\<rparr>) (courses d1) = Some (c', cs)
         \<and> courses d' = cs \<and> reviews d' = reviews d1"
proof -
  from run obtain course where c: "course_findUnique courseId d = Some course"
    by (cases "course_findUnique courseId d") (auto simp: create_review_def run_defs)
  from run c obtain e where e: "enrollment_findUnique studentId courseId d = Some e"
    by (cases "enrollment_findUnique studentId courseId d") (auto simp: create_review_def run_defs)
  from run c e have n: "review_findUnique studentId courseId d = None"
    by (cases "review_findUnique studentId courseId d") (auto simp: create_review_def run_defs)
  let ?r = "\<lparr>r_studentId = studentId, r_courseId = courseId, r_rating = b_rating body,
               r_title = b_title body, r_content = b_content body, r_isPublished = True,
               r_isVerified = (e_status e = ''COMPLETED'')\<rparr>"
  obtain r1 d1 where s1: "review_create en ?r d = (r1, d1)" by (cases "review_create en ?r d")
  with run c e n obtain rv where r1: "r1 = Inr rv"
    by (cases r1) (auto simp: create_review_def run_defs)
  let ?f = "\<lambda>c. c\<lparr>c_averageRating := or_zero (review_avg courseId d1),
                  c_totalReviews := int (review_count courseId d1)\<rparr>"
  obtain r2 d2 where s2: "course_update en courseId ?f d1 = (r2, d2)"
    by (cases "course_update en courseId ?f d1")
  with run c e n s1 r1 obtain c' where r2: "r2 = Inr c'"
    by (cases r2) (auto simp: create_review_def run_defs)
  let ?g = "\<lambda>t. t\<lparr>t_totalReviews := t_totalReviews t + 1\<rparr>"
  obtain r3 d3 where s3: "tutor_update en (c_tutorId course) ?g d2 = (r3, d3)"
    by (cases "tutor_update en (c_tutorId course) ?g d2")
  with run c e n s1 r1 s2 r2 obtain t' where r3: "r3 = Inr t'"
    by (cases r3) (auto simp: create_review_def run_defs)
  from run c e n s1 r1 s2 r2 s3 r3 have d3: "d3 = d'"
    by (simp add: create_review_def run_defs)
  from course_update_Inr [OF s2 [unfolded r2]] obtain cs where
    cs: "update_unique (\<lambda>c. c_id c = courseId) ?f (courses d1) = Some (c', cs)"
    and d2: "d2 = d1\<lparr>courses := cs\<rparr>" by blast
  from tutor_update_Inr [OF s3 [unfolded r3]] obtain ts where d3': "d3 = d2\<lparr>tutors := ts\<rparr>"
    by blast
  from d2 d3' have "courses d3 = cs \<and> reviews d3 = reviews d1" by simp
  with d3 have "courses d' = cs \<and> reviews d' = reviews d1" by simp
  with cs show ?thesis by blast
qed

lemma delete_review_200D:
  assumes run: "delete_review en studentId courseId d = (Response 200 msg pl, d')"
  shows "\<exists>d1 c' cs. update_unique (\<lambda>c. c_id c = courseId)
           (\<lambda>c. c\<lparr>c_averageRating := or_zero (review_avg courseId d1),
                  c_totalReviews := int (review_count courseId d1)\<rparr>) (courses d1) = Some (c', cs)
         \<and> courses d' = cs \<and> reviews d' = reviews d1"
proof -
  from run obtain rv where rv: "review_findUnique studentId courseId d = Some rv"
    by (cases "review_findUnique studentId courseId d") (auto simp: delete_review_def run_defs)
  obtain r1 d1 where s1: "review_delete en studentId courseId d = (r1, d1)"
    by (cases "review_delete en studentId courseId d")
  with run rv obtain rv' where r1: "r1 = Inr rv'"
    by (cases r1) (auto simp: delete_review_def run_defs)
  let ?f = "\<lambda>c. c\<lparr>c_averageRating := or_zero (review_avg courseId d1),
                  c_totalReviews := int (review_count courseId d1)\<rparr>"
  obtain r2 d2 where s2: "course_update en courseId ?f d1 = (r2, d2)"
    by (cases "course_update en courseId ?f d1")
  with run rv s1 r1 obtain c' where r2: "r2 = Inr c'"
    by (cases r2) (auto simp: delete_review_def run_defs)
  from run rv s1 r1 s2 r2 obtain course where
    c: "course_findUnique (r_courseId rv) d = Some course"
    by (cases "course_findUnique (r_courseId rv) d")
       (auto simp: delete_review_def run_defs try_next_throw)
  let ?g = "\<lambda>t. t\<lparr>t_totalReviews := t_totalReviews t - 1\<rparr>"
  obtain r3 d3 where s3: "tutor_update en (c_tutorId course) ?g d2 = (r3, d3)"
    by (cases "tutor_update en (c_tutorId course) ?g d2")
  with run rv s1 r1 s2 r2 c obtain t' where r3: "r3 = Inr t'"
    by (cases r3) (auto simp: delete_review_def run_defs)
  from run rv s1 r1 s2 r2 c s3 r3 have d3: "d3 = d'"
    by (simp add: delete_review_def run_defs)
  from course_update_Inr [OF s2 [unfolded r2]] obtain cs where
    cs: "update_unique (\<lambda>c. c_id c = courseId) ?f (courses d1) = Some (c', cs)"
    and d2: "d2 = d1\<lparr>courses := cs\<rparr>" by blast
  from tutor_update_Inr [OF s3 [unfolded r3]] obtain ts where d3': "d3 = d2\<lparr>tutors := ts\<rparr>"
    by blast
  from d2 d3' have "courses d3 = cs \<and> reviews d3 = reviews d1" by simp
  with d3 have "courses d' = cs \<and> reviews d' = reviews d1" by simp
  with cs show ?thesis by blast
qed

lemma update_unique_filter_map:
  "update_unique P f xs = Some (y, ys) \<Longrightarrow> \<forall>x. Q (f x) = Q x \<and> g (f x) = g x \<Longrightarrow>
     map g (filter Q ys) = map g (filter Q xs)"
  by (induction xs arbitrary: ys) (auto split: if_splits)

lemma mean_rating_ratings:
  "mean_rating courseId d =
     (if map r_rating (published_reviews courseId d) = [] then 0
      else of_int (sum_list (map r_rating (published_reviews courseId d)))
           / of_nat (length (map r_rating (published_reviews courseId d))))"
  by (simp add: mean_rating_def)

lemma update_review_200D:
  assumes run: "update_review en studentId courseId u d = (Response 200 msg pl, d')"
  shows "\<exists>rv rs. update_unique (\<lambda>r. r_studentId r = studentId \<and> r_courseId r = courseId)
                    (apply_update u) (reviews d) = Some (rv, rs)
     \<and> (if ub_rating u \<noteq> None
         then \<exists>c' cs. update_unique (\<lambda>c. c_id c = courseId)
                  (\<lambda>c. c\<lparr>c_averageRating := or_zero (review_avg courseId (d\<lparr>reviews := rs\<rparr>))\<rparr>)
                  (courses d) = Some (c', cs)
                \<and> d' = d\<lparr>reviews := rs, courses := cs\<rparr>
         else d' = d\<lparr>reviews := rs\<rparr>)"
proof -
  from run obtain r0 where r0: "review_findUnique studentId courseId d = Some r0"
    by (cases "review_findUnique studentId courseId d") (auto simp: update_review_def run_defs)
  obtain r1 d1 where s1: "review_update en studentId courseId (apply_update u) d = (r1, d1)"
    by (cases "review_update en studentId courseId (apply_update u) d")
  with run r0 obtain rv where r1: "r1 = Inr rv"
    by (cases r1) (auto simp: update_review_def run_defs)
  from review_update_Inr [OF s1 [unfolded r1]] obtain rs where
    rs: "update_unique (\<lambda>r. r_studentId r = studentId \<and> r_courseId r = courseId)
           (apply_update u) (reviews d) = Some (rv, rs)"
    and d1: "d1 = d\<lparr>reviews := rs\<rparr>" by blast
  show ?thesis
  proof (cases "ub_rating u = None")
    case True
    with run r0 s1 r1 have "d1 = d'" by (simp add: update_review_def run_defs)
    with True rs d1 show ?thesis by auto
  next
    case False
    let ?f = "\<lambda>c. c\<lparr>c_averageRating := or_zero (review_avg courseId d1)\<rparr>"
    obtain r2 d2 where s2: "course_update en courseId ?f d1 = (r2, d2)"
      by (cases "course_update en courseId ?f d1")
    with run r0 s1 r1 False obtain c' where r2: "r2 = Inr c'"
      by (cases r2) (auto simp: update_review_def run_defs)
    from run r0 s1 r1 False s2 r2 have d2: "d2 = d'"
      by (auto simp: update_review_def run_defs)
    from course_update_Inr [OF s2 [unfolded r2]] obtain cs where
      cs: "update_unique (\<lambda>c. c_id c = courseId) ?f (courses d1) = Some (c', cs)"
      and d2': "d2 = d1\<lparr>courses := cs\<rparr>" by blast
    from cs d1 have "update_unique (\<lambda>c. c_id c = courseId)
                  (\<lambda>c. c\<lparr>c_averageRating := or_zero (review_avg courseId (d\<lparr>reviews := rs\<rparr>))\<rparr>)
                  (courses d) = Some (c', cs)" by simp
    moreover from d1 d2 d2' have "d' = d\<lparr>reviews := rs, courses := cs\<rparr>" by auto
    ultimately show ?thesis using False rs by auto
  qed
qed

lemma update_review_preserves:
  assumes run: "update_review en studentId courseId u d = (Response 200 msg pl, d')"
    and inv: "review_stats_ok courseId d"
  shows "review_stats_ok courseId d'"
proof -
  let ?Q = "\<lambda>r. r_courseId r = courseId \<and> r_isPublished r"
  from update_review_200D [OF run] show ?thesis
  proof (elim exE conjE)
  fix rv rs
  assume rs: "update_unique (\<lambda>r. r_studentId r = studentId \<and> r_courseId r = courseId)
                    (apply_update u) (reviews d) = Some (rv, rs)"
    and fin: "if ub_rating u \<noteq> None
         then \<exists>c' cs. update_unique (\<lambda>c. c_id c = courseId)
                  (\<lambda>c. c\<lparr>c_averageRating := or_zero (review_avg courseId (d\<lparr>reviews := rs\<rparr>))\<rparr>)
                  (courses d) = Some (c', cs)
                \<and> d' = d\<lparr>reviews := rs, courses := cs\<rparr>
         else d' = d\<lparr>reviews := rs\<rparr>"
  have "map (\<lambda>_. ()) (filter ?Q rs) = map (\<lambda>_. ()) (filter ?Q (reviews d))"
    by (rule update_unique_filter_map [OF rs]) (simp add: apply_update_def)
  then have len: "length (filter ?Q rs) = length (filter ?Q (reviews d))"
    by (rule map_eq_imp_length_eq)
  show ?thesis
  proof (cases "ub_rating u = None")
    case True
    with fin have d': "d' = d\<lparr>reviews := rs\<rparr>" by simp
    have "map r_rating (filter ?Q rs) = map r_rating (filter ?Q (reviews d))"
      by (rule update_unique_filter_map [OF rs]) (simp add: apply_update_def True)
    then have "map r_rating (published_reviews courseId d') = map r_rating (published_reviews courseId d)"
      by (simp add: published_reviews_def d')
    then have "mean_rating courseId d' = mean_rating courseId d"
      by (simp only: mean_rating_ratings)
    moreover have "length (published_reviews courseId d') = length (published_reviews courseId d)"
      using len by (simp add: published_reviews_def d')
    moreover have "course_findUnique courseId d' = course_findUnique courseId d"
      by (simp add: course_findUnique_def d')
    ultimately show ?thesis using inv by (simp add: review_stats_ok_def split: option.splits)
  next
    case False
    let ?f = "\<lambda>c. c\<lparr>c_averageRating := or_zero (review_avg courseId (d\<lparr>reviews := rs\<rparr>))\<rparr>"
    from fin False have "\<exists>c' cs. update_unique (\<lambda>c. c_id c = courseId) ?f (courses d) = Some (c', cs)
        \<and> d' = d\<lparr>reviews := rs, courses := cs\<rparr>" by simp
    then obtain c' cs where
      cs: "update_unique (\<lambda>c. c_id c = courseId) ?f (courses d) = Some (c', cs)"
      and d': "d' = d\<lparr>reviews := rs, courses := cs\<rparr>" by (elim exE conjE)
    from update_unique_found [OF cs] obtain x where
      x: "find (\<lambda>c. c_id c = courseId) (courses d) = Some x" and c': "c' = ?f x" by blast
    from find_Some_set [OF x] c' have "c_id c' = courseId" by simp
    from update_unique_find_after [OF cs this]
    have f': "course_findUnique courseId d' = Some c'" by (simp add: course_findUnique_def d')
    have pr: "published_reviews courseId d' = published_reviews courseId (d\<lparr>reviews := rs\<rparr>)"
      by (simp add: published_reviews_def d')
    have "c_totalReviews x = int (length (published_reviews courseId d))"
      using inv x by (simp add: review_stats_ok_def course_findUnique_def)
    also have "length (published_reviews courseId d) = length (published_reviews courseId d')"
      using len by (simp add: published_reviews_def d')
    finally have "c_totalReviews c' = int (length (published_reviews courseId d'))"
      using c' by simp
    moreover have "c_averageRating c' = mean_rating courseId d'"
      using c' pr by (simp add: or_zero_avg mean_rating_def)
    ultimately show ?thesis using f' by (simp add: review_stats_ok_def)
  qed
  qed
qed

text \<open>
  C8, as the code has it. After a review has been created or deleted with success, the
  course's stored average rating is the mean of the ratings of its published reviews (0
  when there are none) and its stored review count is their number. An update, which
  rewrites only the average and only when a rating is sent, keeps the two fields right
  when they were right before it.
\<close>

theorem review_stats_maintained:
  "(create_review en studentId courseId body d = (Response 201 msg1 pl1, d1) \<longrightarrow>
      review_stats_ok courseId d1)
   \<and> (delete_review en studentId courseId d = (Response 200 msg2 pl2, d2) \<longrightarrow>
      review_stats_ok courseId d2)
   \<and> (update_review en studentId courseId u d = (Response 200 msg3 pl3, d3)
        \<and> review_stats_ok courseId d \<longrightarrow> review_stats_ok courseId d3)"
proof (intro conjI impI)
  assume "create_review en studentId courseId body d = (Response 201 msg1 pl1, d1)"
  from create_review_201D [OF this] show "review_stats_ok courseId d1"
    by (elim exE conjE) (rule stats_refreshed)
next
  assume "delete_review en studentId courseId d = (Response 200 msg2 pl2, d2)"
  from delete_review_200D [OF this] show "review_stats_ok courseId d2"
    by (elim exE conjE) (rule stats_refreshed)
next
  assume "update_review en studentId courseId u d = (Response 200 msg3 pl3, d3)
        \<and> review_stats_ok courseId d"
  then show "review_stats_ok courseId d3"
    using update_review_preserves by blast
qed

lemmas review_defs = create_review_def update_review_def delete_review_def run_defs
  try_next_throw review_create_def review_update_def review_delete_def course_update_def
  tutor_update_def statement_def review_findUnique_def course_findUnique_def
  enrollment_findUnique_def review_avg_def review_count_def published_reviews_def or_zero_def
  apply_update_def

lemmas demo_review_defs = demo_review_def demo_seeded_db_def demo_reviewed_db_def

text \<open>
  C8, as the claim states it, fails for an update. On the seeded state the student changes
  the rating from 5 to 4: the request succeeds and the course's average becomes 4, but
  its stored review count stays 0 while it has one published review.
\<close>

theorem review_update_leaves_count_stale:
  "fst (update_review demo_env ''u1'' ''c2''
          \<lparr>ub_rating = Some 4, ub_title = None, ub_content = None\<rparr> demo_seeded_db) =
     Response 200 ''Review updated successfully'' (ReviewData (demo_review\<lparr>r_rating := 4\<rparr>))
   \<and> course_findUnique ''c2'' (snd (update_review demo_env ''u1'' ''c2''
          \<lparr>ub_rating = Some 4, ub_title = None, ub_content = None\<rparr> demo_seeded_db)) =
     Some (demo_paid\<lparr>c_averageRating := 4\<rparr>)
   \<and> c_totalReviews demo_paid = 0
   \<and> length (published_reviews ''c2'' (snd (update_review demo_env ''u1'' ''c2''
          \<lparr>ub_rating = Some 4, ub_title = None, ub_content = None\<rparr> demo_seeded_db))) = 1
   \<and> \<not> review_stats_ok ''c2'' (snd (update_review demo_env ''u1'' ''c2''
          \<lparr>ub_rating = Some 4, ub_title = None, ub_content = None\<rparr> demo_seeded_db))"
  by (simp add: review_defs review_stats_ok_def mean_rating_def demo_review_defs demo_defs)

theorem review_stats_maintained_witness:
  "create_review demo_env ''u1'' ''c2'' \<lparr>b_rating = 4, b_title = None, b_content = None\<rparr> demo_db =
     (Response 201 ''Review created successfully''
        (ReviewData (demo_review\<lparr>r_rating := 4, r_title := None, r_isVerified := False\<rparr>)),
      snd (create_review demo_env ''u1'' ''c2''
             \<lparr>b_rating = 4, b_title = None, b_content = None\<rparr> demo_db))
   \<and> review_stats_ok ''c2'' (snd (create_review demo_env ''u1'' ''c2''
             \<lparr>b_rating = 4, b_title = None, b_content = None\<rparr> demo_db))
   \<and> delete_review demo_env ''u1'' ''c2'' demo_reviewed_db =
     (Response 200 ''Review deleted successfully'' NoData,
      snd (delete_review demo_env ''u1'' ''c2'' demo_reviewed_db))
   \<and> review_stats_ok ''c2'' (snd (delete_review demo_env ''u1'' ''c2'' demo_reviewed_db))
   \<and> update_review demo_env ''u1'' ''c2''
        \<lparr>ub_rating = Some 3, ub_title = None, ub_content = None\<rparr> demo_reviewed_db =
     (Response 200 ''Review updated successfully'' (ReviewData (demo_review\<lparr>r_rating := 3\<rparr>)),
      snd (update_review demo_env ''u1'' ''c2''
             \<lparr>ub_rating = Some 3, ub_title = None, ub_content = None\<rparr> demo_reviewed_db))
   \<and> review_stats_ok ''c2'' demo_reviewed_db
   \<and> review_stats_ok ''c2'' (snd (update_review demo_env ''u1'' ''c2''
             \<lparr>ub_rating = Some 3, ub_title = None, ub_content = None\<rparr> demo_reviewed_db))"
proof -
  let ?b = "\<lparr>b_rating = 4, b_title = None, b_content = None\<rparr>"
  let ?u = "\<lparr>ub_rating = Some 3, ub_title = None, ub_content = None\<rparr>"
  have c: "create_review demo_env ''u1'' ''c2'' ?b demo_db =
     (Response 201 ''Review created successfully''
        (ReviewData (demo_review\<lparr>r_rating := 4, r_title := None, r_isVerified := False\<rparr>)),
      snd (create_review demo_env ''u1'' ''c2'' ?b demo_db))"
    by (simp add: review_defs demo_review_defs demo_defs)
  have dl: "delete_review demo_env ''u1'' ''c2'' demo_reviewed_db =
     (Response 200 ''Review deleted successfully'' NoData,
      snd (delete_review demo_env ''u1'' ''c2'' demo_reviewed_db))"
    by (simp add: review_defs demo_review_defs demo_defs)
  have up: "update_review demo_env ''u1'' ''c2'' ?u demo_reviewed_db =
     (Response 200 ''Review updated successfully'' (ReviewData (demo_review\<lparr>r_rating := 3\<rparr>)),
      snd (update_review demo_env ''u1'' ''c2'' ?u demo_reviewed_db))"
    by (simp add: review_defs demo_review_defs demo_defs)
  have inv: "review_stats_ok ''c2'' demo_reviewed_db"
    by (simp add: review_stats_ok_def mean_rating_def published_reviews_def course_findUnique_def
        demo_review_defs demo_defs)
  have 1: "review_stats_ok ''c2'' (snd (create_review demo_env ''u1'' ''c2'' ?b demo_db))"
    using review_stats_maintained [THEN conjunct1, THEN mp, OF c] .
  have 2: "review_stats_ok ''c2'' (snd (delete_review demo_env ''u1'' ''c2'' demo_reviewed_db))"
    using review_stats_maintained [THEN conjunct2, THEN conjunct1, THEN mp, OF dl] .
  have 3: "review_stats_ok ''c2'' (snd (update_review demo_env ''u1'' ''c2'' ?u demo_reviewed_db))"
    using review_stats_maintained [THEN conjunct2, THEN conjunct2, THEN mp, OF conjI, OF up inv] .
  from c dl up inv 1 2 3 show ?thesis by simp
qed

lemma permission_json_no_password: "\<not> has_key ''password'' (permission_json d i)"
  by (simp add: permission_json_def split: option.splits)

lemma role_json_no_password: "\<not> has_key ''password'' (role_json d i)"
  by (simp add: role_json_def permission_json_no_password list_ex_iff split: option.splits)

lemma user_includes_no_password: "\<not> has_key ''password'' (JObj (user_includes d i))"
  by (simp add: user_includes_def role_json_no_password permission_json_no_password list_ex_iff
      or_null_def student_json_def tutor_json_def admin_json_def split: option.splits)

lemma without_password_no_password:
  "\<not> has_key ''password'' (JObj (without_password (user_object u @ user_includes d i)))"
  using user_includes_no_password [of d i]
  by (simp add: without_password_def user_object_def list_ex_iff)

lemma authenticate_Inl:
  "authenticate jwt_verify authorization d = Inl (Response code msg pl) \<Longrightarrow> code = 401"
  by (auto simp: authenticate_def split: option.splits if_splits)

lemma get_me_200D:
  assumes "get_me jwt_verify authorization d = (Response 200 msg (UserData obj), d')"
  shows "\<exists>u i. obj = without_password (user_object u @ user_includes d i)"
  using assms
  by (auto simp: get_me_def auth_def me_handler_def run_defs user_findUnique_include_def
      split: sum.splits option.splits dest: authenticate_Inl)

lemma find_user_set_password:
  "find (\<lambda>u. u_id u = k) (map (\<lambda>u. if u_id u = i then u\<lparr>u_password := pw\<rparr> else u) xs) =
     map_option (\<lambda>u. if u_id u = i then u\<lparr>u_password := pw\<rparr> else u) (find (\<lambda>u. u_id u = k) xs)"
  by (induction xs) auto

lemma permission_json_set_password: "permission_json (set_password i pw d) k = permission_json d k"
  by (simp add: permission_json_def set_password_def)

lemma role_json_set_password: "role_json (set_password i pw d) k = role_json d k"
  using permission_json_set_password [of i pw d]
  by (simp add: role_json_def set_password_def split: option.splits)

lemma user_includes_set_password: "user_includes (set_password i pw d) k = user_includes d k"
  using permission_json_set_password [of i pw d] role_json_set_password [of i pw d]
  by (simp add: user_includes_def set_password_def)

lemma without_password_set:
  "without_password (user_object (u\<lparr>u_password := pw\<rparr>) @ inc) = without_password (user_object u @ inc)"
  by (simp add: without_password_def user_object_def)

lemma user_findUnique_set_password:
  "map_option without_password (user_findUnique_include k (set_password i pw d)) =
     map_option without_password (user_findUnique_include k d)"
  by (cases "find (\<lambda>u. u_id u = k) (users d)")
     (simp_all add: user_findUnique_include_def set_password_def find_user_set_password
        user_includes_set_password [unfolded set_password_def] without_password_set)

lemma me_handler_set_password:
  "u_id (ru_user r') = u_id (ru_user r) \<Longrightarrow>
     fst (me_handler r' (set_password i pw d)) = fst (me_handler r d)"
  using user_findUnique_set_password [of "u_id (ru_user r)" i pw d]
  by (cases "user_findUnique_include (u_id (ru_user r)) d";
      cases "user_findUnique_include (u_id (ru_user r)) (set_password i pw d)")
     (simp_all add: me_handler_def run_defs)

lemma authenticate_Inl_payload:
  "authenticate jwt_verify authorization d = Inl (Response code msg pl) \<Longrightarrow> pl = NoData"
  by (auto simp: authenticate_def split: option.splits if_splits)

lemma get_me_UserDataD:
  assumes "get_me jwt_verify authorization d = (Response code msg (UserData obj), d')"
  shows "\<exists>u i. obj = without_password (user_object u @ user_includes d i)"
  using assms
  by (auto simp: get_me_def auth_def me_handler_def run_defs user_findUnique_include_def
      split: sum.splits option.splits dest: authenticate_Inl_payload)

lemma authenticate_set_password:
  "(case authenticate jwt_verify authorization (set_password i pw d) of
      Inl r \<Rightarrow> authenticate jwt_verify authorization d = Inl r
    | Inr u' \<Rightarrow> (\<exists>u. authenticate jwt_verify authorization d = Inr u
                 \<and> u_id (ru_user u') = u_id (ru_user u)))"
proof (cases authorization)
  case None
  then show ?thesis by (simp add: authenticate_def)
next
  case (Some header)
  define token where "token = remove_first ''Bearer '' header"
  show ?thesis
  proof (cases "token = [] \<or> jwt_verify token = None")
    case True
    with Some show ?thesis by (auto simp: authenticate_def token_def)
  next
    case False
    then obtain k where k: "jwt_verify token = Some k" and t: "token \<noteq> []" by auto
    show ?thesis
    proof (cases "find (\<lambda>u. u_id u = k) (users d)")
      case None
      with Some k t show ?thesis
        by (simp add: authenticate_def set_password_def find_user_set_password token_def)
    next
      case (Some usr)
      with \<open>authorization = Some header\<close> k t show ?thesis
        by (simp add: authenticate_def set_password_def find_user_set_password token_def)
    qed
  qed
qed

text \<open>
  C10. Whatever GET /api/auth/me answers, the user object in its body has no property named
  password, at any depth; and the answer is the same on two databases that differ only in
  the password column of one user, the authenticated one or any other.
\<close>

theorem get_me_hides_password:
  "(\<forall>code msg obj d'. get_me jwt_verify authorization d = (Response code msg (UserData obj), d') \<longrightarrow>
       \<not> has_key ''password'' (JObj obj))
   \<and> fst (get_me jwt_verify authorization (set_password i pw d)) =
       fst (get_me jwt_verify authorization d)"
proof (intro conjI allI impI)
  fix code msg obj d'
  assume "get_me jwt_verify authorization d = (Response code msg (UserData obj), d')"
  from get_me_UserDataD [OF this] show "\<not> has_key ''password'' (JObj obj)"
    using without_password_no_password by auto
next
  show "fst (get_me jwt_verify authorization (set_password i pw d)) =
       fst (get_me jwt_verify authorization d)"
  proof (cases "authenticate jwt_verify authorization (set_password i pw d)")
    case (Inl r)
    with authenticate_set_password [where jwt_verify = jwt_verify and authorization = authorization and i = i and pw = pw and d = d]
    have "authenticate jwt_verify authorization d = Inl r" by simp
    with Inl show ?thesis by (simp add: get_me_def auth_def)
  next
    case (Inr u')
    with authenticate_set_password [where jwt_verify = jwt_verify and authorization = authorization and i = i and pw = pw and d = d]
    obtain u where u: "authenticate jwt_verify authorization d = Inr u"
      and id: "u_id (ru_user u') = u_id (ru_user u)" by auto
    from me_handler_set_password [where i = i and pw = pw and d = d, OF id] Inr u show ?thesis
      by (simp add: get_me_def auth_def)
  qed
qed

lemmas get_me_defs = get_me_def auth_def authenticate_def me_handler_def run_defs
  user_findUnique_include_def user_object_def user_includes_def without_password_def
  roleNames_def rolePermissionNames_def userPermissionNames_def distinct_first_def
  or_null_def tutor_json_def

theorem get_me_hides_password_witness:
  "get_me demo_verify (Some ''Bearer tok-u2'') demo_users_db =
     (Response 200 []
        (UserData [(''id'', JStr ''u2''), (''email'', JStr ''tutor@edustack.com''),
           (''username'', JStr ''tutor''), (''firstName'', JStr ''Tia''),
           (''lastName'', JStr ''Tutor''), (''isActive'', JBool True),
           (''roles'', JArr []), (''permissions'', JArr []), (''studentProfile'', JNull),
           (''tutorProfile'', JObj [(''id'', JStr ''t1''), (''userId'', JStr ''u2''),
              (''totalStudents'', JNum 1), (''totalEarnings'', JNum 0),
              (''totalReviews'', JNum 0)]),
           (''adminProfile'', JNull)]),
      demo_users_db)
   \<and> \<not> has_key ''password''
        (JObj [(''id'', JStr ''u2''), (''email'', JStr ''tutor@edustack.com''),
           (''username'', JStr ''tutor''), (''firstName'', JStr ''Tia''),
           (''lastName'', JStr ''Tutor''), (''isActive'', JBool True),
           (''roles'', JArr []), (''permissions'', JArr []), (''studentProfile'', JNull),
           (''tutorProfile'', JObj [(''id'', JStr ''t1''), (''userId'', JStr ''u2''),
              (''totalStudents'', JNum 1), (''totalEarnings'', JNum 0),
              (''totalReviews'', JNum 0)]),
           (''adminProfile'', JNull)])
   \<and> fst (get_me demo_verify (Some ''Bearer tok-u2'') (set_password ''u2'' ''changed'' demo_users_db)) =
       fst (get_me demo_verify (Some ''Bearer tok-u2'') demo_users_db)"
proof -
  have r: "get_me demo_verify (Some ''Bearer tok-u2'') demo_users_db =
     (Response 200 []
        (UserData [(''id'', JStr ''u2''), (''email'', JStr ''tutor@edustack.com''),
           (''username'', JStr ''tutor''), (''firstName'', JStr ''Tia''),
           (''lastName'', JStr ''Tutor''), (''isActive'', JBool True),
           (''roles'', JArr []), (''permissions'', JArr []), (''studentProfile'', JNull),
           (''tutorProfile'', JObj [(''id'', JStr ''t1''), (''userId'', JStr ''u2''),
              (''totalStudents'', JNum 1), (''totalEarnings'', JNum 0),
              (''totalReviews'', JNum 0)]),
           (''adminProfile'', JNull)]),
      demo_users_db)"
    by (simp add: get_me_defs demo_users_defs demo_defs)
  note T = get_me_hides_password [where jwt_verify = demo_verify
      and authorization = "Some ''Bearer tok-u2''" and d = demo_users_db and i = "''u2''"
      and pw = "''changed''"]
  from T [THEN conjunct1, rule_format, OF r] T [THEN conjunct2] r show ?thesis
    by (intro conjI)
qed

end
